theory Spec2Isabelle
  imports Main "HOL-Library.Word"
begin

section \<open>The FFmpeg decoder bridge (ffmpeg\_jni.cc)\<close>

text \<open>
  The bridge is glue between a Java caller and libavcodec/libavresample. Its own logic is
  control flow around library calls, so the embedding keeps the library abstract: the
  library is a record of operations over an arbitrary library state \<open>'l\<close>, every call the
  bridge makes is appended to a trace, and the theorems hold for every such library.
  Native objects live at addresses; the address \<open>0\<close> is the null pointer. The embedding
  covers codec lookup, the session lifecycle and decoding; the frame accessors and the
  scaler functions of lines 167-229 only pass their arguments on and are left out.
\<close>

subsection \<open>Data\<close>

type_synonym byte = "8 word"
type_synonym ptr = nat

abbreviation NULL :: ptr where
  "NULL \<equiv> 0"

text \<open>The two feature macros of lines 20-21. The audio blocks of the file are inside
  \<^verbatim>\<open>#ifdef ENABLE_AUDIO\<close>; the file as written defines \<^verbatim>\<open>ENABLE_VIDEO\<close> and has the
  definition of \<^verbatim>\<open>ENABLE_AUDIO\<close> commented out.\<close>

record build =
  ENABLE_VIDEO :: bool
  ENABLE_AUDIO :: bool

definition source_build :: build where
  "source_build = \<lparr>ENABLE_VIDEO = True, ENABLE_AUDIO = False\<rparr>"

text \<open>The same file with the definition of \<^verbatim>\<open>ENABLE_AUDIO\<close> put back.\<close>

definition audio_build :: build where
  "audio_build = \<lparr>ENABLE_VIDEO = True, ENABLE_AUDIO = True\<rparr>"

datatype AVMediaType =
  AVMEDIA_TYPE_UNKNOWN | AVMEDIA_TYPE_VIDEO | AVMEDIA_TYPE_AUDIO
  | AVMEDIA_TYPE_DATA | AVMEDIA_TYPE_SUBTITLE | AVMEDIA_TYPE_ATTACHMENT

text \<open>The fields of \<^verbatim>\<open>AVCodecContext\<close> that the bridge reads or writes. The extradata block
  is kept by value: \<open>None\<close> is a null pointer, \<open>Some bs\<close> the bytes of the allocated block.\<close>

record AVCodecContext =
  codec_type :: AVMediaType
  codec_id :: int
  request_sample_fmt :: int
  extradata :: "byte list option"
  extradata_size :: int
  delay :: int
  sample_fmt :: int
  channels :: int
  channel_layout :: int
  sample_rate :: int
  opaque :: ptr

record AVPacket =
  pkt_data :: "byte list option"
  pkt_size :: int
  pts :: int
  dts :: int

record AVFrame =
  nb_samples :: int
  data :: "byte list list"
  linesize :: "int list"

text \<open>A \<^verbatim>\<open>jobject\<close> handed to \<^verbatim>\<open>nativeDecode\<close>: a direct byte buffer with its memory, or some
  other object, for which \<^verbatim>\<open>GetDirectBufferAddress\<close> answers null.\<close>

datatype jobject = DirectByteBuffer "byte list" | OtherObject

fun GetDirectBufferAddress :: "jobject \<Rightarrow> byte list option" where
  "GetDirectBufferAddress (DirectByteBuffer bs) = Some bs"
| "GetDirectBufferAddress OtherObject = None"

text \<open>What C leaves undefined is a value of the model, never an unspecified HOL term.\<close>

datatype fault = InvalidPointer | NullPointer | OutOfBounds | SignedOverflow

subsection \<open>The library\<close>

text \<open>Constants of the library headers and of \<^verbatim>\<open>errno.h\<close>; the headers are not part of the
  repository, so the values are parameters.\<close>

record av_consts =
  EINVAL :: int
  EAGAIN :: int
  ENOMEM :: int
  AVERROR_EOF :: int
  AVERROR_INVALIDDATA :: int
  AVERROR_BUFFER_TOO_SMALL :: int
  AVERROR_BUG :: int
  AV_INPUT_BUFFER_PADDING_SIZE :: int
  AV_NOPTS_VALUE :: int
  AV_CODEC_ID_TRUEHD :: int
  AV_SAMPLE_FMT_S16 :: int

text \<open>\<^verbatim>\<open>AVERROR(e)\<close> of libavutil/error.h negates a POSIX error number.\<close>

definition AVERROR :: "int \<Rightarrow> int" where
  "AVERROR e = - e"

text \<open>The operations of libavcodec, libavutil and libavresample that the bridge calls.
  Each takes the library state and the values the C call passes, and answers with the
  values the C call returns or stores, and the next library state. An operation given a
  context may rewrite the context structure. \<open>av_malloc\<close> answers with the content of the
  fresh block (a function from offsets to bytes: the library decides what an allocated
  block holds, the caller decides its length) or with \<open>None\<close> for a null pointer.\<close>

record 'l libav =
  hdr :: av_consts
  avcodec_find_decoder_by_name :: "'l \<Rightarrow> string \<Rightarrow> ptr"
  avcodec_find_decoder :: "'l \<Rightarrow> int \<Rightarrow> ptr"
  avcodec_alloc_context3 :: "'l \<Rightarrow> ptr \<Rightarrow> (ptr \<times> AVCodecContext) \<times> 'l"
  av_malloc :: "'l \<Rightarrow> int \<Rightarrow> (nat \<Rightarrow> byte) option \<times> 'l"
  avcodec_open2 :: "'l \<Rightarrow> AVCodecContext \<Rightarrow> ptr \<Rightarrow> (int \<times> AVCodecContext) \<times> 'l"
  avcodec_send_packet :: "'l \<Rightarrow> AVCodecContext \<Rightarrow> AVPacket \<Rightarrow> (int \<times> AVCodecContext) \<times> 'l"
  av_frame_alloc :: "'l \<Rightarrow> ptr \<times> 'l"
  avcodec_receive_frame :: "'l \<Rightarrow> AVCodecContext \<Rightarrow> ptr \<Rightarrow> (int \<times> AVFrame \<times> AVCodecContext) \<times> 'l"
  av_frame_free :: "'l \<Rightarrow> ptr \<Rightarrow> 'l"
  avcodec_flush_buffers :: "'l \<Rightarrow> AVCodecContext \<Rightarrow> AVCodecContext \<times> 'l"
  avcodec_free_context :: "'l \<Rightarrow> AVCodecContext \<Rightarrow> 'l"
  av_strerror :: "int \<Rightarrow> string"
  avresample_alloc_context :: "'l \<Rightarrow> ptr \<times> 'l"
  av_opt_set_int :: "'l \<Rightarrow> ptr \<Rightarrow> string \<Rightarrow> int \<Rightarrow> 'l"
  avresample_open :: "'l \<Rightarrow> ptr \<Rightarrow> int \<times> 'l"
  av_get_bytes_per_sample :: "int \<Rightarrow> int"
  avresample_get_out_samples :: "'l \<Rightarrow> ptr \<Rightarrow> int \<Rightarrow> int"
  avresample_convert :: "'l \<Rightarrow> ptr \<Rightarrow> int \<Rightarrow> int \<Rightarrow> AVFrame \<Rightarrow> int \<Rightarrow> (int \<times> byte list) \<times> 'l"
  avresample_available :: "'l \<Rightarrow> ptr \<Rightarrow> int"
  avresample_free :: "'l \<Rightarrow> ptr \<Rightarrow> 'l"

text \<open>libavcodec documents \<^verbatim>\<open>opaque\<close> as private data of the user: a library that keeps to
  this leaves the field as it is whenever it rewrites a context while decoding or
  flushing.\<close>

definition keeps_opaque :: "'l libav \<Rightarrow> bool" where
  "keeps_opaque L \<longleftrightarrow>
     (\<forall>l c packet. opaque (snd (fst (avcodec_send_packet L l c packet))) = opaque c)
     \<and> (\<forall>l c frame. opaque (snd (snd (fst (avcodec_receive_frame L l c frame)))) = opaque c)
     \<and> (\<forall>l c. opaque (fst (avcodec_flush_buffers L l c)) = opaque c)"

text \<open>\<^verbatim>\<open>avresample_open\<close> is handed a resampler: a library that insists on one does not
  answer 0 (success) when given the null pointer.\<close>

definition opens_only_allocated :: "'l libav \<Rightarrow> bool" where
  "opens_only_allocated L \<longleftrightarrow> (\<forall>l. fst (avresample_open L l NULL) \<noteq> 0)"

text \<open>The trace: one entry per library call, in call order.\<close>

datatype lib_call =
  Avcodec_find_decoder_by_name string
  | Avcodec_find_decoder int
  | Avcodec_alloc_context3 ptr
  | Av_malloc int
  | Avcodec_open2 ptr AVCodecContext ptr
  | Avcodec_send_packet ptr AVPacket
  | Av_frame_alloc
  | Avcodec_receive_frame ptr ptr
  | Av_frame_free ptr
  | Avcodec_flush_buffers ptr
  | Avcodec_free_context ptr
  | Av_strerror int
  | Av_samples_get_buffer_size int int int
  | Avresample_alloc_context
  | Av_opt_set_int ptr string int
  | Avresample_open ptr
  | Av_get_bytes_per_sample int
  | Avresample_get_out_samples ptr int
  | Avresample_convert ptr int int int
  | Avresample_available ptr
  | Avresample_free ptr

text \<open>The state the bridge runs in: the library's state, the live codec contexts by
  address, the trace of library calls and the lines sent to the Android log.\<close>

record 'l world =
  lib :: 'l
  contexts :: "ptr \<rightharpoonup> AVCodecContext"
  calls :: "lib_call list"
  logs :: "string list"

definition libcall :: "lib_call \<Rightarrow> 'l \<Rightarrow> 'l world \<Rightarrow> 'l world" where
  "libcall ev l w = w\<lparr>lib := l, calls := calls w @ [ev]\<rparr>"

definition store_context :: "ptr \<Rightarrow> AVCodecContext \<Rightarrow> 'l world \<Rightarrow> 'l world" where
  "store_context p c w = w\<lparr>contexts := (contexts w)(p \<mapsto> c)\<rparr>"

text \<open>\<^verbatim>\<open>LOGE\<close> (lines 46-47): the log keeps the format string of each line, without its
  arguments.\<close>

definition LOGE :: "string \<Rightarrow> 'l world \<Rightarrow> 'l world" where
  "LOGE msg w = w\<lparr>logs := logs w @ [msg]\<rparr>"

text \<open>\<^verbatim>\<open>logError\<close> (lines 424-429).\<close>

definition logError :: "'l libav \<Rightarrow> string \<Rightarrow> int \<Rightarrow> 'l world \<Rightarrow> 'l world" where
  "logError L functionName errorNumber w =
     LOGE (''Error in '' @ functionName @ '': '' @ av_strerror L errorNumber)
       (libcall (Av_strerror errorNumber) (lib w) w)"

text \<open>C \<open>int\<close> is 32 bits wide on every Android ABI; an \<open>int\<close> result outside the range is
  signed overflow.\<close>

definition INT_MAX :: int where
  "INT_MAX = 2147483647"

definition INT_MIN :: int where
  "INT_MIN = - 2147483648"

definition in_int :: "int \<Rightarrow> bool" where
  "in_int x \<longleftrightarrow> INT_MIN \<le> x \<and> x \<le> INT_MAX"

subsection \<open>Session lifecycle\<close>

text \<open>\<^verbatim>\<open>getCodecByName\<close> (lines 261-269). A \<^verbatim>\<open>jstring\<close> is null (\<open>None\<close>) or carries its
  characters.\<close>

definition getCodecByName :: "'l libav \<Rightarrow> string option \<Rightarrow> 'l world \<Rightarrow> ptr \<times> 'l world" where
  "getCodecByName L codecName w =
     (case codecName of
        None \<Rightarrow> (NULL, w)
      | Some codecNameChars \<Rightarrow>
          (avcodec_find_decoder_by_name L (lib w) codecNameChars,
           libcall (Avcodec_find_decoder_by_name codecNameChars) (lib w) w))"

text \<open>\<^verbatim>\<open>releaseContext\<close> (lines 431-444). The resampler block is compiled with
  \<^verbatim>\<open>ENABLE_AUDIO\<close> only.\<close>

definition releaseContext :: "'l libav \<Rightarrow> build \<Rightarrow> ptr \<Rightarrow> 'l world \<Rightarrow> fault + 'l world" where
  "releaseContext L B context w =
     (if context = NULL then Inr w
      else case contexts w context of
        None \<Rightarrow> Inl InvalidPointer
      | Some c \<Rightarrow>
          let (c1, w1) =
                (if ENABLE_AUDIO B \<and> opaque c \<noteq> NULL
                 then (c\<lparr>opaque := NULL\<rparr>,
                       store_context context (c\<lparr>opaque := NULL\<rparr>)
                         (libcall (Avresample_free (opaque c))
                            (avresample_free L (lib w) (opaque c)) w))
                 else (c, w))
          in Inr (libcall (Avcodec_free_context context)
                    (avcodec_free_context L (lib w1) c1)
                    (w1\<lparr>contexts := (contexts w1)(context := None)\<rparr>)))"

text \<open>\<^verbatim>\<open>createContext\<close> (lines 271-301), in three parts: the extradata block of lines
  279-290, the opening of lines 291-300, and the whole function.\<close>

definition createContext_open ::
  "'l libav \<Rightarrow> build \<Rightarrow> ptr \<Rightarrow> ptr \<Rightarrow> 'l world \<Rightarrow> fault + (ptr \<times> 'l world)" where
  "createContext_open L B codec context w =
     (case contexts w context of
        None \<Rightarrow> Inl InvalidPointer
      | Some c \<Rightarrow>
          let ((result, c'), l') = avcodec_open2 L (lib w) c codec;
              w1 = store_context context c' (libcall (Avcodec_open2 context c codec) l' w)
          in if result < 0
             then (case releaseContext L B context (logError L ''avcodec_open2'' result w1) of
                     Inl e \<Rightarrow> Inl e
                   | Inr w2 \<Rightarrow> Inr (NULL, w2))
             else if codec_type c' = AVMEDIA_TYPE_VIDEO
             then Inr (context, store_context context (c'\<lparr>delay := 0\<rparr>) w1)
             else Inr (context, w1))"

definition createContext_extradata ::
  "'l libav \<Rightarrow> build \<Rightarrow> ptr \<Rightarrow> AVCodecContext \<Rightarrow> byte list \<Rightarrow> 'l world
     \<Rightarrow> fault + (bool \<times> 'l world)" where
  "createContext_extradata L B context c extraData w =
     (let size = int (length extraData);
          c1 = c\<lparr>extradata_size := size\<rparr>;
          n = size + AV_INPUT_BUFFER_PADDING_SIZE (hdr L)
      in if \<not> in_int n then Inl SignedOverflow
         else if n < size then Inl OutOfBounds
         else
           let (block, l') = av_malloc L (lib w) n;
               w1 = libcall (Av_malloc n) l' w
           in case block of
                None \<Rightarrow>
                  (case releaseContext L B context
                          (LOGE ''Failed to allocate extradata.''
                             (store_context context (c1\<lparr>extradata := None\<rparr>) w1)) of
                     Inl e \<Rightarrow> Inl e
                   | Inr w2 \<Rightarrow> Inr (False, w2))
              | Some g \<Rightarrow>
                  Inr (True,
                       store_context context
                         (c1\<lparr>extradata := Some (extraData @ map g [length extraData..<nat n])\<rparr>)
                         w1))"

definition createContext ::
  "'l libav \<Rightarrow> build \<Rightarrow> ptr \<Rightarrow> byte list option \<Rightarrow> 'l world \<Rightarrow> fault + (ptr \<times> 'l world)" where
  "createContext L B codec extraData w =
     (let ((context, c0), l') = avcodec_alloc_context3 L (lib w) codec;
          w1 = libcall (Avcodec_alloc_context3 codec) l' w
      in if context = NULL then Inr (NULL, LOGE ''Failed to allocate context.'' w1)
         else
           let c = c0\<lparr>request_sample_fmt := AV_SAMPLE_FMT_S16 (hdr L)\<rparr>;
               w2 = store_context context c w1
           in case extraData of
                None \<Rightarrow> createContext_open L B codec context w2
              | Some bs \<Rightarrow>
                  (case createContext_extradata L B context c bs w2 of
                     Inl e \<Rightarrow> Inl e
                   | Inr (False, w3) \<Rightarrow> Inr (NULL, w3)
                   | Inr (True, w3) \<Rightarrow> createContext_open L B codec context w3))"

text \<open>\<^verbatim>\<open>nativeHasDecoder\<close> (lines 106-108) and \<^verbatim>\<open>nativeInitialize\<close> (lines 110-117).\<close>

definition nativeHasDecoder :: "'l libav \<Rightarrow> string option \<Rightarrow> 'l world \<Rightarrow> bool \<times> 'l world" where
  "nativeHasDecoder L codecName w =
     (let (codec, w1) = getCodecByName L codecName w in (codec \<noteq> NULL, w1))"

definition nativeInitialize ::
  "'l libav \<Rightarrow> build \<Rightarrow> string option \<Rightarrow> byte list option \<Rightarrow> 'l world
     \<Rightarrow> fault + (ptr \<times> 'l world)" where
  "nativeInitialize L B codecName extraData w =
     (let (codec, w1) = getCodecByName L codecName w
      in if codec = NULL then Inr (0, LOGE ''Codec not found.'' w1)
         else createContext L B codec extraData w1)"

text \<open>\<^verbatim>\<open>nativeReset\<close> (lines 231-253) and \<^verbatim>\<open>nativeRelease\<close> (lines 255-259).\<close>

definition nativeReset ::
  "'l libav \<Rightarrow> build \<Rightarrow> ptr \<Rightarrow> byte list option \<Rightarrow> 'l world \<Rightarrow> fault + (ptr \<times> 'l world)" where
  "nativeReset L B jContext extraData w =
     (if jContext = NULL then Inr (0, LOGE ''Tried to reset without a context.'' w)
      else case contexts w jContext of
        None \<Rightarrow> Inl InvalidPointer
      | Some c \<Rightarrow>
          let codecId = codec_id c
          in if codecId = AV_CODEC_ID_TRUEHD (hdr L)
             then (case releaseContext L B jContext w of
                     Inl e \<Rightarrow> Inl e
                   | Inr w1 \<Rightarrow>
                       let codec = avcodec_find_decoder L (lib w1) codecId;
                           w2 = libcall (Avcodec_find_decoder codecId) (lib w1) w1
                       in if codec = NULL
                          then Inr (0, LOGE ''Unexpected error finding codec %d.'' w2)
                          else createContext L B codec extraData w2)
             else
               let (c', l') = avcodec_flush_buffers L (lib w) c
               in Inr (jContext,
                       store_context jContext c'
                         (libcall (Avcodec_flush_buffers jContext) l' w)))"

definition nativeRelease :: "'l libav \<Rightarrow> build \<Rightarrow> ptr \<Rightarrow> 'l world \<Rightarrow> fault + 'l world" where
  "nativeRelease L B context w =
     (if context \<noteq> NULL then releaseContext L B context w else Inr w)"

subsection \<open>Decoding\<close>

text \<open>\<^verbatim>\<open>sizeof(jlong)\<close> is 8; a \<^verbatim>\<open>jlong\<close> is stored least significant byte first, the byte
  order of every Android ABI.\<close>

definition sizeof_jlong :: int where
  "sizeof_jlong = 8"

definition jlong_bytes :: "ptr \<Rightarrow> byte list" where
  "jlong_bytes p = map (\<lambda>i. word_of_nat (p div 256 ^ i)) [0..<8]"

text \<open>A store of \<open>bs\<close> through a pointer \<open>pos\<close> bytes into the block \<open>out\<close>.\<close>

definition write_bytes :: "byte list option \<Rightarrow> int \<Rightarrow> byte list \<Rightarrow> fault + byte list option" where
  "write_bytes out pos bs =
     (case out of
        None \<Rightarrow> Inl NullPointer
      | Some mem \<Rightarrow>
          if pos < 0 \<or> int (length mem) < pos + int (length bs) then Inl OutOfBounds
          else Inr (Some (take (nat pos) mem @ bs @ drop (nat pos + length bs) mem)))"

text \<open>How a part of a function ends: with a fault, with a \<^verbatim>\<open>return\<close> of the enclosing
  function, or by going on with a value.\<close>

datatype ('a, 'l) stage =
  Faulted fault
  | Returned int "'l world"
  | Proceed 'a "'l world"

text \<open>The feed stage of \<^verbatim>\<open>decodePacket\<close> (lines 305-323). \<open>Proceed\<close> carries the local
  \<^verbatim>\<open>result\<close>.\<close>

definition queue_input ::
  "'l libav \<Rightarrow> ptr \<Rightarrow> AVPacket \<Rightarrow> bool \<Rightarrow> 'l world \<Rightarrow> (int, 'l) stage" where
  "queue_input L context packet endOfInput w =
     (if pkt_size packet > 0 \<or> endOfInput
      then (case contexts w context of
              None \<Rightarrow> Faulted InvalidPointer
            | Some c \<Rightarrow>
                let ((result, c'), l') = avcodec_send_packet L (lib w) c packet;
                    w1 = store_context context c'
                           (libcall (Avcodec_send_packet context packet) l' w)
                in if result \<noteq> 0 \<and> result \<noteq> AVERROR_EOF (hdr L)
                   then let w2 = logError L ''avcodec_send_packet'' result w1
                        in if AVERROR_INVALIDDATA (hdr L) = result
                           then Proceed 0 w2
                           else Returned result w2
                   else Proceed result w1)
      else Proceed 0 w)"

text \<open>How one round of the drain loop ends: with a fault, with a \<^verbatim>\<open>return\<close> (the value and
  the output block), with \<^verbatim>\<open>break\<close>, or with the next round's output block, output
  pointer (as an offset into the block) and \<^verbatim>\<open>outSize\<close>.\<close>

datatype 'l step =
  Fault fault
  | Returns int "byte list option" "'l world"
  | Break "'l world"
  | Continue "byte list option" int int "'l world"

text \<open>The resampler of lines 370-388: the one in the context's \<^verbatim>\<open>opaque\<close> field, or a new
  one, configured, opened and stored there. \<^verbatim>\<open>int channelLayout = context->channel_layout\<close>
  narrows a 64-bit mask to \<^verbatim>\<open>int\<close>.\<close>

definition to_int :: "int \<Rightarrow> int" where
  "to_int x = signed_take_bit 31 x"

definition set_resample_options ::
  "'l libav \<Rightarrow> ptr \<Rightarrow> (string \<times> int) list \<Rightarrow> 'l world \<Rightarrow> 'l world" where
  "set_resample_options L resampleContext opts w =
     fold (\<lambda>(name, val) w'.
             libcall (Av_opt_set_int resampleContext name val)
               (av_opt_set_int L (lib w') resampleContext name val) w')
          opts w"

definition audio_resampler ::
  "'l libav \<Rightarrow> ptr \<Rightarrow> AVCodecContext \<Rightarrow> ptr \<Rightarrow> 'l world \<Rightarrow> (ptr, 'l) stage" where
  "audio_resampler L context c frame w =
     (if opaque c \<noteq> NULL then Proceed (opaque c) w
      else
        let (resampleContext, l1) = avresample_alloc_context L (lib w);
            w1 = libcall Avresample_alloc_context l1 w;
            w2 = set_resample_options L resampleContext
                   [(''in_channel_layout'', to_int (channel_layout c)),
                    (''out_channel_layout'', to_int (channel_layout c)),
                    (''in_sample_rate'', sample_rate c),
                    (''out_sample_rate'', sample_rate c),
                    (''in_sample_fmt'', sample_fmt c),
                    (''out_sample_fmt'', AV_SAMPLE_FMT_S16 (hdr L))] w1;
            (result, l3) = avresample_open L (lib w2) resampleContext;
            w3 = libcall (Avresample_open resampleContext) l3 w2
        in if result \<noteq> 0
           then Returned result
                  (libcall (Av_frame_free frame) (av_frame_free L (lib w3) frame)
                     (logError L ''avresample_open'' result w3))
           else Proceed resampleContext
                  (store_context context (c\<lparr>opaque := resampleContext\<rparr>) w3))"

text \<open>The conversion of lines 389-414: the size of the converted frame, the capacity
  check, the conversion into the output block, and the advance of the output pointer.\<close>

definition audio_convert ::
  "'l libav \<Rightarrow> AVCodecContext \<Rightarrow> ptr \<Rightarrow> AVFrame \<Rightarrow> ptr \<Rightarrow> int \<Rightarrow> byte list option \<Rightarrow> int \<Rightarrow> int
     \<Rightarrow> 'l world \<Rightarrow> 'l step" where
  "audio_convert L c frame fr resampleContext outputLimit out pos outSize w =
     (let sampleCount = nb_samples fr;
          outSampleSize = av_get_bytes_per_sample L (AV_SAMPLE_FMT_S16 (hdr L));
          outSamples = avresample_get_out_samples L (lib w) resampleContext sampleCount;
          w1 = libcall (Avresample_get_out_samples resampleContext sampleCount) (lib w)
                 (libcall (Av_get_bytes_per_sample (AV_SAMPLE_FMT_S16 (hdr L))) (lib w)
                    (libcall (Av_get_bytes_per_sample (sample_fmt c)) (lib w) w));
          bufferOutSize = outSampleSize * channels c * outSamples
      in if \<not> in_int (outSampleSize * channels c) \<or> \<not> in_int bufferOutSize
            \<or> \<not> in_int (outSize + bufferOutSize)
         then Fault SignedOverflow
         else if outSize + bufferOutSize > outputLimit
         then Returns (AVERROR_BUFFER_TOO_SMALL (hdr L)) out
                (libcall (Av_frame_free frame) (av_frame_free L (lib w1) frame)
                   (LOGE ''Output buffer size (%d) too small for output data (%d).'' w1))
         else
           let ((result, written), l2) =
                 avresample_convert L (lib w1) resampleContext bufferOutSize outSamples fr
                   sampleCount;
               w2 = libcall (Avresample_convert resampleContext bufferOutSize outSamples
                               sampleCount) l2 w1
           in case write_bytes out pos (take (nat bufferOutSize) written) of
                Inl e \<Rightarrow> Fault e
              | Inr out' \<Rightarrow>
                  let w3 = libcall (Av_frame_free frame) (av_frame_free L (lib w2) frame) w2
                  in if result \<noteq> 0
                     then Returns result out' (logError L ''avresample_convert'' result w3)
                     else
                       let available = avresample_available L (lib w3) resampleContext;
                           w4 = libcall (Avresample_available resampleContext) (lib w3) w3
                       in if available \<noteq> 0
                          then Returns (AVERROR_BUG (hdr L)) out'
                                 (LOGE ''Expected no samples remaining after resampling, but found %d.''
                                    w4)
                          else Continue out' (pos + bufferOutSize) (outSize + bufferOutSize) w4)"

text \<open>The audio branch of the drain loop (lines 361-418): with \<^verbatim>\<open>ENABLE_AUDIO\<close> the frame is
  resampled into the output block, without it the frame is logged and freed.\<close>

definition audio_output ::
  "'l libav \<Rightarrow> build \<Rightarrow> ptr \<Rightarrow> AVCodecContext \<Rightarrow> ptr \<Rightarrow> AVFrame \<Rightarrow> int \<Rightarrow> byte list option
     \<Rightarrow> int \<Rightarrow> int \<Rightarrow> 'l world \<Rightarrow> 'l step" where
  "audio_output L B context c frame fr outputLimit out pos outSize w =
     (if ENABLE_AUDIO B
      then
        let w1 = libcall (Av_samples_get_buffer_size (channels c) (nb_samples fr) (sample_fmt c))
                   (lib w) w
        in case audio_resampler L context c frame w1 of
             Faulted e \<Rightarrow> Fault e
           | Returned result w2 \<Rightarrow> Returns result out w2
           | Proceed resampleContext w2 \<Rightarrow>
               audio_convert L c frame fr resampleContext outputLimit out pos outSize w2
      else Continue out pos outSize
             (libcall (Av_frame_free frame) (av_frame_free L (lib w) frame)
                (LOGE ''Error: ENABLE_AUDIO not defined, but decoding audio.'' w)))"

text \<open>One round of the drain loop (lines 327-420).\<close>

definition drain_round ::
  "'l libav \<Rightarrow> build \<Rightarrow> ptr \<Rightarrow> int \<Rightarrow> byte list option \<Rightarrow> int \<Rightarrow> int \<Rightarrow> 'l world \<Rightarrow> 'l step" where
  "drain_round L B context outputLimit out pos outSize w =
     (let (frame, l1) = av_frame_alloc L (lib w);
          w1 = libcall Av_frame_alloc l1 w
      in if frame = NULL
         then Returns (AVERROR (ENOMEM (hdr L))) out
                (LOGE ''Failed to allocate output frame.'' w1)
         else case contexts w1 context of
           None \<Rightarrow> Fault InvalidPointer
         | Some c \<Rightarrow>
             let ((result, fr, c'), l2) = avcodec_receive_frame L (lib w1) c frame;
                 w2 = store_context context c'
                        (libcall (Avcodec_receive_frame context frame) l2 w1)
             in if result \<noteq> 0
                then let w3 = libcall (Av_frame_free frame) (av_frame_free L (lib w2) frame) w2
                     in if result = AVERROR (EAGAIN (hdr L)) then Break w3
                        else Returns result out (logError L ''avcodec_receive_frame'' result w3)
                else if codec_type c' = AVMEDIA_TYPE_VIDEO
                then if outputLimit < sizeof_jlong
                     then Returns (AVERROR_BUFFER_TOO_SMALL (hdr L)) out
                            (LOGE ''Output buffer size (%d) too small for output data (%d).'' w2)
                     else (case write_bytes out pos (jlong_bytes frame) of
                             Inl e \<Rightarrow> Fault e
                           | Inr out' \<Rightarrow> Returns sizeof_jlong out' w2)
                else audio_output L B context c' frame fr outputLimit out pos outSize w2)"

text \<open>The drain loop \<^verbatim>\<open>while (true)\<close>. Nothing in the bridge bounds the number of rounds (a
  library that keeps delivering frames keeps it running), so the loop takes fuel: \<open>None\<close>
  says that the fuel ran out before the loop was left.\<close>

fun drain ::
  "'l libav \<Rightarrow> build \<Rightarrow> nat \<Rightarrow> ptr \<Rightarrow> int \<Rightarrow> byte list option \<Rightarrow> int \<Rightarrow> int \<Rightarrow> 'l world
     \<Rightarrow> (fault + int \<times> byte list option \<times> 'l world) option" where
  "drain L B 0 context outputLimit out pos outSize w = None"
| "drain L B (Suc fuel) context outputLimit out pos outSize w =
     (case drain_round L B context outputLimit out pos outSize w of
        Fault e \<Rightarrow> Some (Inl e)
      | Returns result out' w' \<Rightarrow> Some (Inr (result, out', w'))
      | Break w' \<Rightarrow> Some (Inr (outSize, out, w'))
      | Continue out' pos' outSize' w' \<Rightarrow> drain L B fuel context outputLimit out' pos' outSize' w')"

text \<open>\<^verbatim>\<open>decodePacket\<close> (lines 303-422): the value returned, the output block and the state.\<close>

definition decodePacket ::
  "'l libav \<Rightarrow> build \<Rightarrow> nat \<Rightarrow> ptr \<Rightarrow> AVPacket \<Rightarrow> bool \<Rightarrow> byte list option \<Rightarrow> int \<Rightarrow> 'l world
     \<Rightarrow> (fault + int \<times> byte list option \<times> 'l world) option" where
  "decodePacket L B fuel context packet endOfInput outputBuffer outputLimit w =
     (case queue_input L context packet endOfInput w of
        Faulted e \<Rightarrow> Some (Inl e)
      | Returned result w1 \<Rightarrow> Some (Inr (result, outputBuffer, w1))
      | Proceed result w1 \<Rightarrow> drain L B fuel context outputLimit outputBuffer 0 0 w1)"

text \<open>\<^verbatim>\<open>nativeDecode\<close> (lines 119-147). \<open>buffer_address\<close> is the memory behind a buffer
  object; the output block of a rejected call is that memory, untouched.\<close>

definition buffer_address :: "jobject option \<Rightarrow> byte list option" where
  "buffer_address obj = (case obj of None \<Rightarrow> None | Some b \<Rightarrow> GetDirectBufferAddress b)"

definition nativeDecode ::
  "'l libav \<Rightarrow> build \<Rightarrow> nat \<Rightarrow> ptr \<Rightarrow> jobject option \<Rightarrow> int \<Rightarrow> int \<Rightarrow> bool \<Rightarrow> jobject option \<Rightarrow> int
     \<Rightarrow> 'l world \<Rightarrow> (fault + int \<times> byte list option \<times> 'l world) option" where
  "nativeDecode L B fuel context inputData inputSize pts' endOfInput outputData outputLimit w =
     (if context = NULL
      then Some (Inr (AVERROR (EINVAL (hdr L)), buffer_address outputData,
                      LOGE ''Context must be non-NULL.'' w))
      else if inputData = None \<or> outputData = None
      then Some (Inr (AVERROR (EINVAL (hdr L)), buffer_address outputData,
                      LOGE ''Input and output buffers must be non-NULL.'' w))
      else if inputSize < 0
      then Some (Inr (AVERROR (EINVAL (hdr L)), buffer_address outputData,
                      LOGE ''Invalid input buffer size: %d.'' w))
      else if outputLimit < 0
      then Some (Inr (AVERROR (EINVAL (hdr L)), buffer_address outputData,
                      LOGE ''Invalid output buffer length: %d'' w))
      else
        let inputBuffer = buffer_address inputData;
            outputBuffer = buffer_address outputData;
            packet = \<lparr>pkt_data = (if inputSize > 0 then inputBuffer else None),
                      pkt_size = inputSize, pts = pts', dts = AV_NOPTS_VALUE (hdr L)\<rparr>
        in decodePacket L B fuel context packet endOfInput outputBuffer outputLimit w)"

subsection \<open>Observations\<close>

text \<open>What a theorem reads off a finished call: the value returned, the output block,
  and the state in which one round of the drain loop ends.\<close>

definition returned ::
  "(fault + int \<times> byte list option \<times> 'l world) option \<Rightarrow> (fault + int) option" where
  "returned r = map_option (map_sum id fst) r"

definition output_block ::
  "(fault + int \<times> byte list option \<times> 'l world) option \<Rightarrow> byte list option" where
  "output_block r = (case r of Some (Inr (v, out, w)) \<Rightarrow> out | _ \<Rightarrow> None)"

definition final_calls ::
  "(fault + int \<times> byte list option \<times> 'l world) option \<Rightarrow> lib_call list" where
  "final_calls r = (case r of Some (Inr (v, out, w)) \<Rightarrow> calls w | _ \<Rightarrow> [])"

fun step_world :: "'l step \<Rightarrow> 'l world option" where
  "step_world (Fault e) = None"
| "step_world (Returns r out w) = Some w"
| "step_world (Break w) = Some w"
| "step_world (Continue out pos outSize w) = Some w"

text \<open>The loop after \<open>k\<close> rounds that all went on to the next round: the output block, the
  output pointer, \<^verbatim>\<open>outSize\<close> and the state that round \<open>k + 1\<close> starts with.\<close>

fun drain_rounds ::
  "'l libav \<Rightarrow> build \<Rightarrow> nat \<Rightarrow> ptr \<Rightarrow> int \<Rightarrow> byte list option \<Rightarrow> int \<Rightarrow> int \<Rightarrow> 'l world
     \<Rightarrow> (byte list option \<times> int \<times> int \<times> 'l world) option" where
  "drain_rounds L B 0 context outputLimit out pos outSize w = Some (out, pos, outSize, w)"
| "drain_rounds L B (Suc k) context outputLimit out pos outSize w =
     (case drain_round L B context outputLimit out pos outSize w of
        Continue out' pos' outSize' w' \<Rightarrow> drain_rounds L B k context outputLimit out' pos' outSize' w'
      | _ \<Rightarrow> None)"

text \<open>The next call, made in the state in which a decode call ended.\<close>

definition and_then ::
  "(fault + int \<times> byte list option \<times> 'l world) option \<Rightarrow> ('l world \<Rightarrow> 'a option) \<Rightarrow> 'a option" where
  "and_then r next_call = (case r of Some (Inr (v, out, w)) \<Rightarrow> next_call w | _ \<Rightarrow> None)"

text \<open>The submit calls of a trace.\<close>

fun is_submit :: "lib_call \<Rightarrow> bool" where
  "is_submit (Avcodec_send_packet context packet) = True"
| "is_submit ev = False"

definition submits :: "'l world \<Rightarrow> lib_call list" where
  "submits w = filter is_submit (calls w)"

text \<open>What a theorem reads off a finished \<open>nativeInitialize\<close> or \<open>nativeReset\<close>: the
  handle returned, the context that is live at an address afterwards, and the trace.\<close>

definition handle :: "fault + ptr \<times> 'l world \<Rightarrow> fault + ptr" where
  "handle r = map_sum id fst r"

definition live_after :: "fault + ptr \<times> 'l world \<Rightarrow> ptr \<Rightarrow> AVCodecContext option" where
  "live_after r p = (case r of Inl e \<Rightarrow> None | Inr (h, w) \<Rightarrow> contexts w p)"

definition calls_after :: "fault + ptr \<times> 'l world \<Rightarrow> lib_call list" where
  "calls_after r = (case r of Inl e \<Rightarrow> [] | Inr (h, w) \<Rightarrow> calls w)"

text \<open>The resamplers that the conversion calls of a trace were made with, in call order.\<close>

fun converter :: "lib_call \<Rightarrow> ptr list" where
  "converter (Avresample_convert resampleContext planeSize outSamples sampleCount)
     = [resampleContext]"
| "converter ev = []"

definition converters :: "'l world \<Rightarrow> ptr list" where
  "converters w = concat (map converter (calls w))"

text \<open>The resampler slot of the context at an address, the number of resamplers allocated
  so far, and both read off a finished decode call.\<close>

definition attached :: "'l world \<Rightarrow> ptr \<Rightarrow> ptr option" where
  "attached w context = map_option opaque (contexts w context)"

definition resampler_allocs :: "'l world \<Rightarrow> nat" where
  "resampler_allocs w = length (filter (\<lambda>ev. ev = Avresample_alloc_context) (calls w))"

definition final_world ::
  "(fault + int \<times> byte list option \<times> 'l world) option \<Rightarrow> 'l world option" where
  "final_world r = (case r of Some (Inr (v, out, w)) \<Rightarrow> Some w | _ \<Rightarrow> None)"

definition final_attached ::
  "(fault + int \<times> byte list option \<times> 'l world) option \<Rightarrow> ptr \<Rightarrow> ptr option" where
  "final_attached r context = (case final_world r of None \<Rightarrow> None | Some w \<Rightarrow> attached w context)"

text \<open>The calls that a caller makes on a session between opening and releasing it: decode
  calls and resets.\<close>

datatype session_call =
  Decode "jobject option" int int bool "jobject option" int
  | Reset "byte list option"

text \<open>A run of such calls on the session at an address, each call made in the state that
  the call before it left. A reset of a TrueHD session releases the session: the run of
  the session has no state past it (\<open>None\<close>), as it has none past a fault or past a decode
  call that runs out of fuel.\<close>

fun session_calls ::
  "'l libav \<Rightarrow> build \<Rightarrow> nat \<Rightarrow> ptr \<Rightarrow> session_call list \<Rightarrow> 'l world \<Rightarrow> 'l world option" where
  "session_calls L B fuel context [] w = Some w"
| "session_calls L B fuel context
     (Decode inputData inputSize pts' endOfInput outputData outputLimit # cs) w =
     (case nativeDecode L B fuel context inputData inputSize pts' endOfInput outputData
             outputLimit w of
        Some (Inr (r, out, w')) \<Rightarrow> session_calls L B fuel context cs w'
      | _ \<Rightarrow> None)"
| "session_calls L B fuel context (Reset extraData # cs) w =
     (case contexts w context of
        None \<Rightarrow> None
      | Some c \<Rightarrow>
          if codec_id c = AV_CODEC_ID_TRUEHD (hdr L) then None
          else (case nativeReset L B context extraData w of
                  Inl e \<Rightarrow> None
                | Inr (h, w') \<Rightarrow> session_calls L B fuel context cs w'))"

subsection \<open>A small library to run the bridge on\<close>

text \<open>A deterministic stand-in for the library, for running the bridge on concrete
  inputs. Its state holds what the next calls answer: the result of every
  \<open>avcodec_open2\<close> and \<open>avcodec_send_packet\<close>, the results and frames that an accepted
  packet decodes to, the queue of results and frames that \<open>avcodec_receive_frame\<close> hands
  out (an accepted packet adds to it; \<^verbatim>\<open>AVERROR(EAGAIN)\<close> once it is empty), the next fresh
  address, and the byte that freshly allocated memory holds. It knows two decoders, a video
  decoder at address 1 and the TrueHD audio decoder at address 2, and its
  \<open>avresample_open\<close> refuses the null pointer. The header constants are those of libavutil
  and Linux.\<close>

record sim =
  open_result :: int
  send_result :: int
  per_packet :: "(int \<times> AVFrame) list"
  frames :: "(int \<times> AVFrame) list"
  next_ptr :: ptr
  fill :: byte

definition sim_consts :: av_consts where
  "sim_consts =
     \<lparr>EINVAL = 22, EAGAIN = 11, ENOMEM = 12,
      AVERROR_EOF = - 541478725,
      AVERROR_INVALIDDATA = - 1094995529,
      AVERROR_BUFFER_TOO_SMALL = - 1397118274,
      AVERROR_BUG = - 558323010,
      AV_INPUT_BUFFER_PADDING_SIZE = 32,
      AV_NOPTS_VALUE = - 9223372036854775808,
      AV_CODEC_ID_TRUEHD = 86060,
      AV_SAMPLE_FMT_S16 = 1\<rparr>"

definition sim_context :: "ptr \<Rightarrow> AVCodecContext" where
  "sim_context codec =
     \<lparr>codec_type = (if codec = 1 then AVMEDIA_TYPE_VIDEO else AVMEDIA_TYPE_AUDIO),
      codec_id = (if codec = 1 then 27 else 86060),
      request_sample_fmt = - 1, extradata = None, extradata_size = 0, delay = 0,
      sample_fmt = 8, channels = 2, channel_layout = 3, sample_rate = 48000,
      opaque = NULL\<rparr>"

definition sim_frame :: AVFrame where
  "sim_frame = \<lparr>nb_samples = 0, data = [], linesize = []\<rparr>"

text \<open>A frame of 1024 samples; as 16-bit stereo it takes 4096 bytes.\<close>

definition sim_audio_frame :: AVFrame where
  "sim_audio_frame = \<lparr>nb_samples = 1024, data = [replicate 8192 0], linesize = [8192]\<rparr>"

definition sim_fresh :: "sim \<Rightarrow> ptr \<times> sim" where
  "sim_fresh l = (next_ptr l, l\<lparr>next_ptr := Suc (next_ptr l)\<rparr>)"

definition sim_receive :: "sim \<Rightarrow> AVCodecContext \<Rightarrow> ptr \<Rightarrow> (int \<times> AVFrame \<times> AVCodecContext) \<times> sim" where
  "sim_receive l c frame =
     (case frames l of
        [] \<Rightarrow> ((- 11, sim_frame, c), l)
      | (r, fr) # rest \<Rightarrow> ((r, fr, c), l\<lparr>frames := rest\<rparr>))"

definition sim_lib :: "sim libav" where
  "sim_lib =
     \<lparr>hdr = sim_consts,
      avcodec_find_decoder_by_name =
        (\<lambda>l name. if name = ''h264'' then 1 else if name = ''truehd'' then 2 else NULL),
      avcodec_find_decoder = (\<lambda>l cid. if cid = 27 then 1 else if cid = 86060 then 2 else NULL),
      avcodec_alloc_context3 =
        (\<lambda>l codec. ((next_ptr l, sim_context codec), l\<lparr>next_ptr := Suc (next_ptr l)\<rparr>)),
      av_malloc = (\<lambda>l n. (Some (\<lambda>i. fill l), l)),
      avcodec_open2 = (\<lambda>l c codec. ((open_result l, c), l)),
      avcodec_send_packet =
        (\<lambda>l c packet.
           ((send_result l, c),
            if send_result l = 0 then l\<lparr>frames := frames l @ per_packet l\<rparr> else l)),
      av_frame_alloc = sim_fresh,
      avcodec_receive_frame = sim_receive,
      av_frame_free = (\<lambda>l frame. l),
      avcodec_flush_buffers = (\<lambda>l c. (c, l\<lparr>frames := []\<rparr>)),
      avcodec_free_context = (\<lambda>l c. l),
      av_strerror = (\<lambda>e. ''error''),
      avresample_alloc_context = sim_fresh,
      av_opt_set_int = (\<lambda>l p name val. l),
      avresample_open = (\<lambda>l p. (if p = NULL then - 22 else 0, l)),
      av_get_bytes_per_sample = (\<lambda>fmt. if fmt = 1 then 2 else 4),
      avresample_get_out_samples = (\<lambda>l p n. n),
      avresample_convert = (\<lambda>l p size' outSamples fr n. ((0, replicate (nat size') 0), l)),
      avresample_available = (\<lambda>l p. 0),
      avresample_free = (\<lambda>l p. l)\<rparr>"

text \<open>The packet that \<^verbatim>\<open>nativeDecode\<close> builds for \<open>n\<close> zero bytes of input.\<close>

definition sim_packet :: "int \<Rightarrow> AVPacket" where
  "sim_packet n =
     \<lparr>pkt_data = (if n > 0 then Some (replicate (nat n) 0) else None), pkt_size = n, pts = 0,
      dts = - 9223372036854775808\<rparr>"

text \<open>A library state with nothing queued, and the state of the bridge before any call.\<close>

definition sim_idle :: sim where
  "sim_idle =
     \<lparr>open_result = 0, send_result = 0, per_packet = [], frames = [], next_ptr = 100,
      fill = 170\<rparr>"

definition start :: "'l \<Rightarrow> 'l world" where
  "start l = \<lparr>lib = l, contexts = Map.empty, calls = [], logs = []\<rparr>"

text \<open>A state with one open session at address 7, of the given decoder.\<close>

definition session :: "ptr \<Rightarrow> sim \<Rightarrow> sim world" where
  "session codec l = store_context 7 (sim_context codec) (start l)"

text \<open>A state with one open TrueHD session at address 7 whose resampler is at address 55.\<close>

definition resampling :: "sim \<Rightarrow> sim world" where
  "resampling l = store_context 7 (sim_context 2\<lparr>opaque := 55\<rparr>) (start l)"

section \<open>Properties\<close>

subsection \<open>State bookkeeping\<close>

lemma libcall_simps [simp]:
  "lib (libcall ev l w) = l"
  "contexts (libcall ev l w) = contexts w"
  "calls (libcall ev l w) = calls w @ [ev]"
  "logs (libcall ev l w) = logs w"
  by (simp_all add: libcall_def)

lemma store_context_simps [simp]:
  "lib (store_context p c w) = lib w"
  "contexts (store_context p c w) = (contexts w)(p \<mapsto> c)"
  "calls (store_context p c w) = calls w"
  "logs (store_context p c w) = logs w"
  by (simp_all add: store_context_def)

lemma LOGE_simps [simp]:
  "lib (LOGE msg w) = lib w"
  "contexts (LOGE msg w) = contexts w"
  "calls (LOGE msg w) = calls w"
  "logs (LOGE msg w) = logs w @ [msg]"
  by (simp_all add: LOGE_def)

lemma logError_simps [simp]:
  "lib (logError L f e w) = lib w"
  "contexts (logError L f e w) = contexts w"
  "calls (logError L f e w) = calls w @ [Av_strerror e]"
  by (simp_all add: logError_def)

text \<open>The definitions that running the small library unfolds.\<close>

lemmas sim_defs = sim_lib_def sim_consts_def sim_idle_def sim_context_def sim_frame_def
  sim_fresh_def sim_receive_def session_def start_def sim_packet_def

subsection \<open>The drain loop never submits\<close>

lemma submits_simps [simp]:
  "submits (libcall ev l w) = submits w @ (if is_submit ev then [ev] else [])"
  "submits (store_context p c w) = submits w"
  "submits (LOGE msg w) = submits w"
  "submits (logError L f e w) = submits w"
  by (simp_all add: submits_def)

lemma submits_options [simp]:
  "submits (set_resample_options L rc opts w) = submits w"
  unfolding set_resample_options_def
  by (induction opts arbitrary: w) auto

lemma audio_resampler_submits:
  "audio_resampler L context c frame w = Returned r w'
     \<or> audio_resampler L context c frame w = Proceed rc w'
   \<Longrightarrow> submits w' = submits w"
  by (auto simp: audio_resampler_def Let_def split: if_splits prod.splits)

lemma audio_convert_submits:
  "step_world (audio_convert L c frame fr rc outputLimit out pos outSize w) = Some w'
   \<Longrightarrow> submits w' = submits w"
  by (auto simp: audio_convert_def Let_def split: if_splits prod.splits sum.splits)

lemma audio_output_submits:
  "step_world (audio_output L B context c frame fr outputLimit out pos outSize w) = Some w'
   \<Longrightarrow> submits w' = submits w"
  by (auto simp: audio_output_def Let_def split: if_splits stage.splits
      dest!: audio_convert_submits
      dest: audio_resampler_submits [OF disjI1] audio_resampler_submits [OF disjI2])

lemma drain_round_submits:
  "step_world (drain_round L B context outputLimit out pos outSize w) = Some w'
   \<Longrightarrow> submits w' = submits w"
  by (auto simp: drain_round_def Let_def split: if_splits prod.splits sum.splits option.splits
      dest!: audio_output_submits)

text \<open>An invariant of every round is an invariant of the loop.\<close>

lemma drain_invariant:
  assumes round: "\<And>out pos outSize w w'.
      step_world (drain_round L B context outputLimit out pos outSize w) = Some w'
      \<Longrightarrow> I w \<Longrightarrow> I w'"
    and run: "drain L B fuel context outputLimit out pos outSize w = Some (Inr (r, out', w'))"
    and init: "I w"
  shows "I w'"
  using run init
proof (induction fuel arbitrary: out pos outSize w)
  case 0
  then show ?case by simp
next
  case (Suc fuel)
  show ?case
  proof (cases "drain_round L B context outputLimit out pos outSize w")
    case (Fault e)
    with Suc.prems show ?thesis by simp
  next
    case (Returns r1 out1 w1)
    with Suc.prems round [of out pos outSize w w1] show ?thesis by simp
  next
    case (Break w1)
    with Suc.prems round [of out pos outSize w w1] show ?thesis by simp
  next
    case (Continue out1 pos1 outSize1 w1)
    with Suc.prems(1)
    have "drain L B fuel context outputLimit out1 pos1 outSize1 w1 = Some (Inr (r, out', w'))"
      by simp
    moreover from Continue Suc.prems(2) round [of out pos outSize w w1] have "I w1"
      by simp
    ultimately show ?thesis by (rule Suc.IH)
  qed
qed

lemma drain_submits:
  assumes "drain L B fuel context outputLimit out pos outSize w = Some (Inr (r, out', w'))"
  shows "submits w' = submits w"
proof -
  have "submits w' = submits w"
    by (rule drain_invariant [where I = "\<lambda>x. submits x = submits w", OF _ assms])
       (auto dest: drain_round_submits)
  then show ?thesis .
qed

subsection \<open>Codec lookup\<close>

text \<open>Claim C10. A null codec name is answered as not found, not as an argument error:
  \<open>getCodecByName\<close> returns the null codec without calling the library and leaves the
  state as it was, \<open>nativeHasDecoder\<close> answers false, and \<open>nativeInitialize\<close> returns the
  handle 0, having only written a log line.\<close>

theorem null_codec_name_not_found:
  "getCodecByName L None w = (NULL, w)
   \<and> nativeHasDecoder L None w = (False, w)
   \<and> nativeInitialize L B None extraData w = Inr (0, LOGE ''Codec not found.'' w)
   \<and> calls (LOGE ''Codec not found.'' w) = calls w"
  by (simp add: getCodecByName_def nativeHasDecoder_def nativeInitialize_def)

subsection \<open>Decoding: arguments\<close>

text \<open>Claim C4. A decode call with a null session handle, a null input or output buffer,
  a negative input size or a negative output capacity returns \<^verbatim>\<open>AVERROR(EINVAL)\<close>, whichever
  check fails, and calls nothing of the library: the trace, the library state and the
  contexts are as before, and the output block is untouched.\<close>

theorem nativeDecode_invalid_argument:
  assumes "context = NULL \<or> inputData = None \<or> outputData = None \<or> inputSize < 0
             \<or> outputLimit < 0"
  shows "\<exists>w'. nativeDecode L B fuel context inputData inputSize pts' endOfInput outputData
                 outputLimit w
               = Some (Inr (AVERROR (EINVAL (hdr L)), buffer_address outputData, w'))
             \<and> calls w' = calls w \<and> lib w' = lib w \<and> contexts w' = contexts w"
  using assms by (auto simp: nativeDecode_def)

text \<open>One rejected call for each of the five checks; 22 is \<^verbatim>\<open>EINVAL\<close>.\<close>

theorem nativeDecode_invalid_argument_witness:
  "returned (nativeDecode sim_lib source_build 1 NULL (Some (DirectByteBuffer [1])) 1 0 False
      (Some (DirectByteBuffer [0])) 1 (session 1 sim_idle)) = Some (Inr (- 22))
   \<and> returned (nativeDecode sim_lib source_build 1 7 None 1 0 False
      (Some (DirectByteBuffer [0])) 1 (session 1 sim_idle)) = Some (Inr (- 22))
   \<and> returned (nativeDecode sim_lib source_build 1 7 (Some (DirectByteBuffer [1])) 1 0 False
      None 1 (session 1 sim_idle)) = Some (Inr (- 22))
   \<and> returned (nativeDecode sim_lib source_build 1 7 (Some (DirectByteBuffer [1])) (- 1) 0 False
      (Some (DirectByteBuffer [0])) 1 (session 1 sim_idle)) = Some (Inr (- 22))
   \<and> returned (nativeDecode sim_lib source_build 1 7 (Some (DirectByteBuffer [1])) 1 0 False
      (Some (DirectByteBuffer [0])) (- 1) (session 1 sim_idle)) = Some (Inr (- 22))"
  using
    nativeDecode_invalid_argument [of NULL "Some (DirectByteBuffer [1])"
      "Some (DirectByteBuffer [0])" 1 1 sim_lib source_build 1 0 False "session 1 sim_idle"]
    nativeDecode_invalid_argument [of 7 None
      "Some (DirectByteBuffer [0])" 1 1 sim_lib source_build 1 0 False "session 1 sim_idle"]
    nativeDecode_invalid_argument [of 7 "Some (DirectByteBuffer [1])"
      None 1 1 sim_lib source_build 1 0 False "session 1 sim_idle"]
    nativeDecode_invalid_argument [of 7 "Some (DirectByteBuffer [1])"
      "Some (DirectByteBuffer [0])" "- 1" 1 sim_lib source_build 1 0 False "session 1 sim_idle"]
    nativeDecode_invalid_argument [of 7 "Some (DirectByteBuffer [1])"
      "Some (DirectByteBuffer [0])" 1 "- 1" sim_lib source_build 1 0 False "session 1 sim_idle"]
  by (auto simp: returned_def AVERROR_def sim_lib_def sim_consts_def)

subsection \<open>Decoding: the feed stage\<close>

text \<open>Claim C1. A decode call that submits a packet (the packet has data, or the end of the
  input is signalled) looks at the result \<open>r\<close> of \<open>avcodec_send_packet\<close>. If \<open>r\<close> is the
  invalid-data code, the local result becomes 0 and the call goes on to the drain loop. If
  \<open>r\<close> is the end-of-file code ("no more input accepted"), the call goes on to the drain
  loop and nothing is logged. Any other non-zero \<open>r\<close> is returned at once as the value of
  the call: the output block is untouched and the only library calls made are the submit
  and the \<open>av_strerror\<close> of the log line, so nothing is drained. (The codes of the library
  are negative; the value returned is \<open>r\<close> itself.) The two hypotheses on the header say that
  the invalid-data code is a non-zero code of its own.\<close>

theorem submit_result_classification:
  assumes submit: "0 < pkt_size packet \<or> endOfInput"
    and live: "contexts w context = Some c"
    and send: "avcodec_send_packet L (lib w) c packet = ((r, c'), l')"
    and invalid_code: "AVERROR_INVALIDDATA (hdr L) \<noteq> 0"
      "AVERROR_INVALIDDATA (hdr L) \<noteq> AVERROR_EOF (hdr L)"
    and w1: "w1 = store_context context c' (libcall (Avcodec_send_packet context packet) l' w)"
  shows "(r = AVERROR_INVALIDDATA (hdr L) \<longrightarrow>
            queue_input L context packet endOfInput w
              = Proceed 0 (logError L ''avcodec_send_packet'' r w1)
            \<and> decodePacket L B fuel context packet endOfInput outputBuffer outputLimit w
              = drain L B fuel context outputLimit outputBuffer 0 0
                  (logError L ''avcodec_send_packet'' r w1))
       \<and> (r = AVERROR_EOF (hdr L) \<longrightarrow>
            decodePacket L B fuel context packet endOfInput outputBuffer outputLimit w
              = drain L B fuel context outputLimit outputBuffer 0 0 w1)
       \<and> (r \<noteq> 0 \<and> r \<noteq> AVERROR_EOF (hdr L) \<and> r \<noteq> AVERROR_INVALIDDATA (hdr L) \<longrightarrow>
            decodePacket L B fuel context packet endOfInput outputBuffer outputLimit w
              = Some (Inr (r, outputBuffer, logError L ''avcodec_send_packet'' r w1))
            \<and> calls (logError L ''avcodec_send_packet'' r w1)
              = calls w @ [Avcodec_send_packet context packet, Av_strerror r])"
  using assms by (auto simp: decodePacket_def queue_input_def)

text \<open>The three cases on the small library: invalid data (-1094995529), end of file
  (-541478725) and another error (-5).\<close>

theorem submit_result_classification_witness:
  "decodePacket sim_lib source_build 2 7 (sim_packet 4) False (Some [0]) 1
       (session 1 (sim_idle\<lparr>send_result := - 1094995529\<rparr>))
     = drain sim_lib source_build 2 7 1 (Some [0]) 0 0
         (logError sim_lib ''avcodec_send_packet'' (- 1094995529)
            (store_context 7 (sim_context 1)
               (libcall (Avcodec_send_packet 7 (sim_packet 4)) (sim_idle\<lparr>send_result := - 1094995529\<rparr>)
                  (session 1 (sim_idle\<lparr>send_result := - 1094995529\<rparr>)))))
   \<and> decodePacket sim_lib source_build 2 7 (sim_packet 4) False (Some [0]) 1
       (session 1 (sim_idle\<lparr>send_result := - 541478725\<rparr>))
     = drain sim_lib source_build 2 7 1 (Some [0]) 0 0
         (store_context 7 (sim_context 1)
            (libcall (Avcodec_send_packet 7 (sim_packet 4)) (sim_idle\<lparr>send_result := - 541478725\<rparr>)
               (session 1 (sim_idle\<lparr>send_result := - 541478725\<rparr>))))
   \<and> returned (decodePacket sim_lib source_build 2 7 (sim_packet 4) False (Some [0]) 1
       (session 1 (sim_idle\<lparr>send_result := - 5\<rparr>))) = Some (Inr (- 5))
   \<and> final_calls (decodePacket sim_lib source_build 2 7 (sim_packet 4) False (Some [0]) 1
       (session 1 (sim_idle\<lparr>send_result := - 5\<rparr>)))
     = [Avcodec_send_packet 7 (sim_packet 4), Av_strerror (- 5)]"
proof -
  have size: "0 < pkt_size (sim_packet 4) \<or> False"
    by (simp add: sim_packet_def)
  have live: "contexts (session 1 l) 7 = Some (sim_context 1)" for l
    by (simp add: session_def)
  have send: "avcodec_send_packet sim_lib (lib (session 1 (sim_idle\<lparr>send_result := r\<rparr>)))
        (sim_context 1) (sim_packet 4)
      = ((r, sim_context 1), sim_idle\<lparr>send_result := r\<rparr>)" if "r \<noteq> 0" for r
    using that by (simp add: sim_lib_def session_def start_def)
  have codes: "AVERROR_INVALIDDATA (hdr sim_lib) \<noteq> 0"
    "AVERROR_INVALIDDATA (hdr sim_lib) \<noteq> AVERROR_EOF (hdr sim_lib)"
    by (simp_all add: sim_lib_def sim_consts_def)
  have invalid: "(- 1094995529 :: int) \<noteq> 0" and eof: "(- 541478725 :: int) \<noteq> 0"
    and other: "(- 5 :: int) \<noteq> 0"
    by simp_all
  show ?thesis
    using
      submit_result_classification [OF size live send [OF invalid] codes refl,
        of source_build 2 "Some [0]" 1]
      submit_result_classification [OF size live send [OF eof] codes refl,
        of source_build 2 "Some [0]" 1]
      submit_result_classification [OF size live send [OF other] codes refl,
        of source_build 2 "Some [0]" 1]
    by (simp add: sim_lib_def sim_consts_def sim_idle_def returned_def final_calls_def
        session_def start_def)
qed

subsection \<open>Decoding: an empty packet\<close>

text \<open>Claim C7 says that a decode call with input size 0 and no end-of-input flag does not
  submit and produces 0 bytes. The first half holds. The second does not: the drain loop
  runs all the same, and a frame that the library still holds from an earlier packet is
  delivered. Here the decoder of a video session gets two frames out of one packet. The
  call that submits the packet returns after the first frame, as a video call does; the
  next call, with an empty packet, returns the 8 bytes of the second frame's handle.\<close>

theorem empty_packet_counterexample:
  "returned (nativeDecode sim_lib source_build 1 7 (Some (DirectByteBuffer [1, 2, 3, 4])) 4 0 False
      (Some (DirectByteBuffer (replicate 8 0))) 8
      (session 1 (sim_idle\<lparr>per_packet := [(0, sim_frame), (0, sim_frame)]\<rparr>))) = Some (Inr 8)
   \<and> returned
        (and_then
           (nativeDecode sim_lib source_build 1 7 (Some (DirectByteBuffer [1, 2, 3, 4])) 4 0 False
              (Some (DirectByteBuffer (replicate 8 0))) 8
              (session 1 (sim_idle\<lparr>per_packet := [(0, sim_frame), (0, sim_frame)]\<rparr>)))
           (nativeDecode sim_lib source_build 1 7 (Some (DirectByteBuffer [])) 0 0 False
              (Some (DirectByteBuffer (replicate 8 0))) 8))
       = Some (Inr 8)"
  by (simp add: returned_def and_then_def nativeDecode_def buffer_address_def decodePacket_def
      queue_input_def drain_round_def sim_defs sizeof_jlong_def write_bytes_def jlong_bytes_def)

text \<open>Claim C7, amended. A decode call with valid arguments, input size 0 and no
  end-of-input flag is the drain loop run on the unchanged state, so it never submits: the
  submit calls of its final trace are those of the initial one. When the library has no
  output ready (frame allocation succeeds and the first \<open>avcodec_receive_frame\<close> answers
  \<^verbatim>\<open>AVERROR(EAGAIN)\<close>), the call returns 0 and leaves the output block as it was.\<close>

theorem empty_packet_skips_submit:
  assumes args: "context \<noteq> NULL" "inputData \<noteq> None" "outputData \<noteq> None" "0 \<le> outputLimit"
    and empty: "inputSize = 0" "\<not> endOfInput"
  shows "nativeDecode L B fuel context inputData inputSize pts' endOfInput outputData outputLimit w
           = drain L B fuel context outputLimit (buffer_address outputData) 0 0 w
    \<and> (nativeDecode L B fuel context inputData inputSize pts' endOfInput outputData outputLimit w
           = Some (Inr (r, out', w')) \<longrightarrow> submits w' = submits w)
    \<and> (av_frame_alloc L (lib w) = (frame, l1) \<and> frame \<noteq> NULL \<and> contexts w context = Some c
         \<and> avcodec_receive_frame L l1 c frame = ((AVERROR (EAGAIN (hdr L)), fr, c'), l2)
         \<and> EAGAIN (hdr L) \<noteq> 0
         \<longrightarrow> nativeDecode L B (Suc n) context inputData inputSize pts' endOfInput outputData outputLimit w
           = Some (Inr (0, buffer_address outputData,
                libcall (Av_frame_free frame) (av_frame_free L l2 frame)
                  (store_context context c'
                     (libcall (Avcodec_receive_frame context frame) l2 (libcall Av_frame_alloc l1 w))))))"
proof -
  have eq: "nativeDecode L B k context inputData inputSize pts' endOfInput outputData outputLimit w
           = drain L B k context outputLimit (buffer_address outputData) 0 0 w" for k
    using assms by (auto simp: nativeDecode_def decodePacket_def queue_input_def)
  have quiet: "nativeDecode L B fuel context inputData inputSize pts' endOfInput outputData outputLimit w
           = Some (Inr (r, out', w')) \<longrightarrow> submits w' = submits w"
    unfolding eq by (auto dest: drain_submits)
  have idle: "av_frame_alloc L (lib w) = (frame, l1) \<and> frame \<noteq> NULL \<and> contexts w context = Some c
         \<and> avcodec_receive_frame L l1 c frame = ((AVERROR (EAGAIN (hdr L)), fr, c'), l2)
         \<and> EAGAIN (hdr L) \<noteq> 0
         \<longrightarrow> nativeDecode L B (Suc n) context inputData inputSize pts' endOfInput outputData outputLimit w
           = Some (Inr (0, buffer_address outputData,
                libcall (Av_frame_free frame) (av_frame_free L l2 frame)
                  (store_context context c'
                     (libcall (Avcodec_receive_frame context frame) l2 (libcall Av_frame_alloc l1 w)))))"
    unfolding eq by (auto simp: drain_round_def AVERROR_def)
  from eq quiet idle show ?thesis by blast
qed

theorem empty_packet_skips_submit_witness:
  "returned (nativeDecode sim_lib source_build 1 7 (Some (DirectByteBuffer [])) 0 0 False
      (Some (DirectByteBuffer [5, 6])) 2 (session 1 sim_idle)) = Some (Inr 0)
   \<and> output_block (nativeDecode sim_lib source_build 1 7 (Some (DirectByteBuffer [])) 0 0 False
      (Some (DirectByteBuffer [5, 6])) 2 (session 1 sim_idle)) = Some [5, 6]
   \<and> final_calls (nativeDecode sim_lib source_build 1 7 (Some (DirectByteBuffer [])) 0 0 False
      (Some (DirectByteBuffer [5, 6])) 2 (session 1 sim_idle))
       = [Av_frame_alloc, Avcodec_receive_frame 7 100, Av_frame_free 100]"
proof -
  have args: "(7::nat) \<noteq> NULL" "Some (DirectByteBuffer []) \<noteq> None"
    "Some (DirectByteBuffer [5, 6]) \<noteq> None" "(0::int) \<le> 2" "(0::int) = 0" "\<not> False"
    by simp_all
  show ?thesis
    using empty_packet_skips_submit [OF args, of sim_lib source_build 0 0 "session 1 sim_idle"
        0 None "session 1 sim_idle" 100 "sim_idle\<lparr>next_ptr := 101\<rparr>" "sim_context 1" sim_frame
        "sim_context 1" "sim_idle\<lparr>next_ptr := 101\<rparr>" 0]
    by (simp add: returned_def output_block_def final_calls_def sim_defs AVERROR_def buffer_address_def)
qed

subsection \<open>Decoding: a video frame\<close>

lemma jlong_bytes_100: "jlong_bytes 100 = [100, 0, 0, 0, 0, 0, 0, 0]"
  by (simp add: jlong_bytes_def upt_conv_Cons)

text \<open>Claim C2. Take a decode call whose feed stage goes on to the drain loop, whose first
  round gets a frame (the allocation gives a frame object at a non-null address and
  \<open>avcodec_receive_frame\<close> answers 0) and whose context is of video type when the frame
  arrives. If the output limit is below \<^verbatim>\<open>sizeof(jlong)\<close>, 8 bytes, the call returns the
  buffer-too-small code and the output block is as it was. Otherwise (the limit being within
  the output block) the call stores the 8 bytes of the frame's address at the start of the
  output block, leaves the rest of the block as it was, and returns 8 at once: after the
  feed stage the trace has one frame allocation and one \<open>avcodec_receive_frame\<close> and
  nothing else, so no second frame is asked for.\<close>

theorem video_frame_single_handle:
  assumes fed: "queue_input L context packet endOfInput w = Proceed res w1"
    and alloc: "av_frame_alloc L (lib w1) = (frame, l2)" "frame \<noteq> NULL"
    and live: "contexts w1 context = Some c"
    and got: "avcodec_receive_frame L l2 c frame = ((0, fr, c'), l3)"
    and video: "codec_type c' = AVMEDIA_TYPE_VIDEO"
    and w2: "w2 = store_context context c'
                   (libcall (Avcodec_receive_frame context frame) l3 (libcall Av_frame_alloc l2 w1))"
  shows "(outputLimit < sizeof_jlong \<longrightarrow>
            decodePacket L B (Suc n) context packet endOfInput outputBuffer outputLimit w
              = Some (Inr (AVERROR_BUFFER_TOO_SMALL (hdr L), outputBuffer,
                  LOGE ''Output buffer size (%d) too small for output data (%d).'' w2)))
       \<and> (sizeof_jlong \<le> outputLimit \<and> outputBuffer = Some mem \<and> outputLimit \<le> int (length mem) \<longrightarrow>
            decodePacket L B (Suc n) context packet endOfInput outputBuffer outputLimit w
              = Some (Inr (sizeof_jlong, Some (jlong_bytes frame @ drop 8 mem), w2))
            \<and> length (jlong_bytes frame) = 8
            \<and> calls w2 = calls w1 @ [Av_frame_alloc, Avcodec_receive_frame context frame])"
  using assms
  by (auto simp: decodePacket_def drain_round_def write_bytes_def sizeof_jlong_def jlong_bytes_def)

text \<open>On the small library with two frames ready: a 7-byte buffer is too small
  (-1397118274), a 10-byte buffer gets the handle of the frame at address 100 in its
  first 8 bytes, and the second frame stays in the library.\<close>

theorem video_frame_single_handle_witness:
  "returned (decodePacket sim_lib source_build 1 7 (sim_packet 4) False (Some (replicate 7 0)) 7
       (session 1 (sim_idle\<lparr>frames := [(0, sim_frame), (0, sim_frame)]\<rparr>))) = Some (Inr (- 1397118274))
   \<and> output_block (decodePacket sim_lib source_build 1 7 (sim_packet 4) False (Some (replicate 7 0)) 7
       (session 1 (sim_idle\<lparr>frames := [(0, sim_frame), (0, sim_frame)]\<rparr>))) = Some (replicate 7 0)
   \<and> returned (decodePacket sim_lib source_build 1 7 (sim_packet 4) False (Some (replicate 10 9)) 10
       (session 1 (sim_idle\<lparr>frames := [(0, sim_frame), (0, sim_frame)]\<rparr>))) = Some (Inr 8)
   \<and> output_block (decodePacket sim_lib source_build 1 7 (sim_packet 4) False (Some (replicate 10 9)) 10
       (session 1 (sim_idle\<lparr>frames := [(0, sim_frame), (0, sim_frame)]\<rparr>)))
       = Some [100, 0, 0, 0, 0, 0, 0, 0, 9, 9]
   \<and> final_calls (decodePacket sim_lib source_build 1 7 (sim_packet 4) False (Some (replicate 10 9)) 10
       (session 1 (sim_idle\<lparr>frames := [(0, sim_frame), (0, sim_frame)]\<rparr>)))
       = [Avcodec_send_packet 7 (sim_packet 4), Av_frame_alloc, Avcodec_receive_frame 7 100]"
proof -
  let ?l = "sim_idle\<lparr>frames := [(0, sim_frame), (0, sim_frame)]\<rparr>"
  let ?w1 = "store_context 7 (sim_context 1) (libcall (Avcodec_send_packet 7 (sim_packet 4)) ?l (session 1 ?l))"
  have fed: "queue_input sim_lib 7 (sim_packet 4) False (session 1 ?l) = Proceed 0 ?w1"
    by (simp add: queue_input_def sim_defs)
  have alloc: "av_frame_alloc sim_lib (lib ?w1) = (100, ?l\<lparr>next_ptr := 101\<rparr>)" "(100::nat) \<noteq> NULL"
    by (simp_all add: sim_defs)
  have live: "contexts ?w1 7 = Some (sim_context 1)"
    by simp
  have got: "avcodec_receive_frame sim_lib (?l\<lparr>next_ptr := 101\<rparr>) (sim_context 1) 100
      = ((0, sim_frame, sim_context 1), sim_idle\<lparr>frames := [(0, sim_frame)], next_ptr := 101\<rparr>)"
    by (simp add: sim_defs)
  have video: "codec_type (sim_context 1) = AVMEDIA_TYPE_VIDEO"
    by (simp add: sim_defs)
  note inst = video_frame_single_handle [OF fed alloc live got video refl]
  have small: "decodePacket sim_lib source_build 1 7 (sim_packet 4) False (Some (replicate 7 0)) 7
       (session 1 ?l) = Some (Inr (- 1397118274, Some (replicate 7 0),
          LOGE ''Output buffer size (%d) too small for output data (%d).''
            (store_context 7 (sim_context 1) (libcall (Avcodec_receive_frame 7 100)
               (sim_idle\<lparr>frames := [(0, sim_frame)], next_ptr := 101\<rparr>)
               (libcall Av_frame_alloc (?l\<lparr>next_ptr := 101\<rparr>) ?w1)))))"
    using inst [of 7 source_build 0 "Some (replicate 7 0)" "replicate 7 0"]
    by (simp add: sizeof_jlong_def sim_lib_def sim_consts_def)
  have large: "decodePacket sim_lib source_build 1 7 (sim_packet 4) False (Some (replicate 10 9)) 10
       (session 1 ?l) = Some (Inr (8, Some ([100, 0, 0, 0, 0, 0, 0, 0] @ [9, 9]),
            (store_context 7 (sim_context 1) (libcall (Avcodec_receive_frame 7 100)
               (sim_idle\<lparr>frames := [(0, sim_frame)], next_ptr := 101\<rparr>)
               (libcall Av_frame_alloc (?l\<lparr>next_ptr := 101\<rparr>) ?w1)))))"
    using inst [of 10 source_build 0 "Some (replicate 10 9)" "replicate 10 9"]
    by (simp add: sizeof_jlong_def jlong_bytes_100 numeral_2_eq_2)
  show ?thesis
    unfolding small large
    by (simp add: returned_def output_block_def final_calls_def session_def start_def)
qed

subsection \<open>Session lifecycle: what creation and release do to the contexts\<close>

lemma releaseContext_live:
  assumes "context \<noteq> NULL" "contexts w context = Some c"
  shows "\<exists>w1. releaseContext L B context w = Inr w1
           \<and> contexts w1 = (contexts w)(context := None)
           \<and> calls w1 = calls w
               @ (if ENABLE_AUDIO B \<and> opaque c \<noteq> NULL then [Avresample_free (opaque c)] else [])
               @ [Avcodec_free_context context]"
  using assms by (auto simp: releaseContext_def)

lemma createContext_open_frame:
  assumes "createContext_open L B codec context w = Inr (p, w')" "context \<noteq> NULL"
  shows "(\<forall>q. q \<noteq> context \<longrightarrow> contexts w' q = contexts w q)
       \<and> (p = NULL \<and> contexts w' context = None \<or> p = context \<and> contexts w' context \<noteq> None)
       \<and> (\<exists>evs. calls w' = calls w @ evs)"
  using assms
  by (auto simp: createContext_open_def releaseContext_def Let_def
      split: option.splits prod.splits if_splits sum.splits)

lemma createContext_extradata_frame:
  assumes "createContext_extradata L B context c bs w = Inr (ok, w')" "context \<noteq> NULL"
  shows "(\<forall>q. q \<noteq> context \<longrightarrow> contexts w' q = contexts w q)
       \<and> (if ok then contexts w' context \<noteq> None else contexts w' context = None)
       \<and> (\<exists>evs. calls w' = calls w @ evs)"
  using assms
  by (auto simp: createContext_extradata_def releaseContext_def Let_def
      split: option.splits prod.splits if_splits sum.splits)

lemma createContext_frame:
  assumes "createContext L B codec extraData w = Inr (p, w')"
  shows "(\<forall>q. q \<noteq> p \<longrightarrow> contexts w q = None \<longrightarrow> contexts w' q = None)
       \<and> (p = NULL \<or> p = fst (fst (avcodec_alloc_context3 L (lib w) codec)) \<and> contexts w' p \<noteq> None)
       \<and> (\<exists>evs. calls w' = calls w @ evs)"
proof -
  obtain ctx c0 l1 where alloc: "avcodec_alloc_context3 L (lib w) codec = ((ctx, c0), l1)"
    by (metis surj_pair)
  show ?thesis
  proof (cases "ctx = NULL")
    case True
    with assms alloc show ?thesis by (auto simp: createContext_def)
  next
    case False
    let ?w2 = "store_context ctx (c0\<lparr>request_sample_fmt := AV_SAMPLE_FMT_S16 (hdr L)\<rparr>)
                 (libcall (Avcodec_alloc_context3 codec) l1 w)"
    show ?thesis
    proof (cases extraData)
      case None
      with assms alloc False have "createContext_open L B codec ctx ?w2 = Inr (p, w')"
        by (simp add: createContext_def)
      from createContext_open_frame [OF this False] alloc show ?thesis
        by (auto split: if_splits) metis+
    next
      case (Some bs)
      show ?thesis
      proof (cases "createContext_extradata L B ctx
                      (c0\<lparr>request_sample_fmt := AV_SAMPLE_FMT_S16 (hdr L)\<rparr>) bs ?w2")
        case (Inl e)
        with assms alloc False Some show ?thesis by (simp add: createContext_def)
      next
        case (Inr okw)
        obtain ok w3 where okw: "okw = (ok, w3)" by (cases okw)
        note ext = createContext_extradata_frame [OF Inr [unfolded okw] False]
        show ?thesis
        proof (cases ok)
          case True
          with assms alloc False Some Inr okw
          have "createContext_open L B codec ctx w3 = Inr (p, w')"
            by (simp add: createContext_def)
          from createContext_open_frame [OF this False] ext alloc show ?thesis
            by (auto split: if_splits) metis+
        next
          case False
          with assms alloc \<open>ctx \<noteq> NULL\<close> Some Inr okw have "p = NULL" "w' = w3"
            by (simp_all add: createContext_def)
          with ext False \<open>ctx \<noteq> NULL\<close> show ?thesis
            by (auto split: if_splits) metis+
        qed
      qed
    qed
  qed
qed

subsection \<open>Reset\<close>

text \<open>Claim C3. Take a reset call on a live session at a non-null handle. If the codec id
  of its context is \<^verbatim>\<open>AV_CODEC_ID_TRUEHD\<close>, the context is released (it is no longer live,
  and the last library call of the release is \<open>avcodec_free_context\<close> on it), the decoder
  is looked up again by that codec id, and the call is \<open>createContext\<close> with the decoder
  found and the init data passed to reset, or 0 when no decoder is found; the handle it
  returns is 0 or the address of a live context. For every other codec id the call is
  \<open>avcodec_flush_buffers\<close> on the context, which stays where it is, and the handle
  returned is the one passed in.\<close>

theorem nativeReset_truehd_reopens_others_flush:
  assumes session: "jContext \<noteq> NULL" "contexts w jContext = Some c"
  shows "(codec_id c = AV_CODEC_ID_TRUEHD (hdr L) \<longrightarrow>
           (\<exists>w1. releaseContext L B jContext w = Inr w1
              \<and> contexts w1 jContext = None
              \<and> last (calls w1) = Avcodec_free_context jContext
              \<and> nativeReset L B jContext extraData w
                  = (if avcodec_find_decoder L (lib w1) (codec_id c) = NULL
                     then Inr (0, LOGE ''Unexpected error finding codec %d.''
                                    (libcall (Avcodec_find_decoder (codec_id c)) (lib w1) w1))
                     else createContext L B (avcodec_find_decoder L (lib w1) (codec_id c)) extraData
                            (libcall (Avcodec_find_decoder (codec_id c)) (lib w1) w1)))
            \<and> (nativeReset L B jContext extraData w = Inr (h, w')
                 \<longrightarrow> h = 0 \<or> contexts w' h \<noteq> None))
       \<and> (codec_id c \<noteq> AV_CODEC_ID_TRUEHD (hdr L) \<longrightarrow>
            nativeReset L B jContext extraData w
              = Inr (jContext,
                     store_context jContext (fst (avcodec_flush_buffers L (lib w) c))
                       (libcall (Avcodec_flush_buffers jContext)
                          (snd (avcodec_flush_buffers L (lib w) c)) w)))"
proof -
  from releaseContext_live [OF session, of L B]
  obtain w1 where rel: "releaseContext L B jContext w = Inr w1"
    and gone: "contexts w1 = (contexts w)(jContext := None)"
    and tr: "calls w1 = calls w
               @ (if ENABLE_AUDIO B \<and> opaque c \<noteq> NULL then [Avresample_free (opaque c)] else [])
               @ [Avcodec_free_context jContext]"
    by blast
  have reopen: "codec_id c = AV_CODEC_ID_TRUEHD (hdr L) \<Longrightarrow>
      nativeReset L B jContext extraData w
        = (if avcodec_find_decoder L (lib w1) (codec_id c) = NULL
           then Inr (0, LOGE ''Unexpected error finding codec %d.''
                          (libcall (Avcodec_find_decoder (codec_id c)) (lib w1) w1))
           else createContext L B (avcodec_find_decoder L (lib w1) (codec_id c)) extraData
                  (libcall (Avcodec_find_decoder (codec_id c)) (lib w1) w1))"
    using session rel by (simp add: nativeReset_def Let_def)
  have new: "h = 0 \<or> contexts w' h \<noteq> None"
    if "codec_id c = AV_CODEC_ID_TRUEHD (hdr L)" "nativeReset L B jContext extraData w = Inr (h, w')"
    using that reopen createContext_frame [of L B "avcodec_find_decoder L (lib w1) (codec_id c)" extraData
        "libcall (Avcodec_find_decoder (codec_id c)) (lib w1) w1" h w']
    by (auto split: if_splits)
  have flush: "codec_id c \<noteq> AV_CODEC_ID_TRUEHD (hdr L) \<Longrightarrow>
      nativeReset L B jContext extraData w
        = Inr (jContext,
               store_context jContext (fst (avcodec_flush_buffers L (lib w) c))
                 (libcall (Avcodec_flush_buffers jContext)
                    (snd (avcodec_flush_buffers L (lib w) c)) w))"
    using session by (simp add: nativeReset_def Let_def split: prod.splits)
  from rel gone tr reopen new flush show ?thesis by auto
qed

text \<open>On the small library: resetting a TrueHD session at address 7 with two bytes of init
  data gives a new session at address 100 that holds them, and address 7 is dead;
  resetting a video session returns 7, flushed.\<close>

theorem nativeReset_truehd_reopens_others_flush_witness:
  "handle (nativeReset sim_lib source_build 7 (Some [1, 2]) (session 2 sim_idle)) = Inr 100
   \<and> live_after (nativeReset sim_lib source_build 7 (Some [1, 2]) (session 2 sim_idle)) 7 = None
   \<and> map_option extradata
        (live_after (nativeReset sim_lib source_build 7 (Some [1, 2]) (session 2 sim_idle)) 100)
       = Some (Some ([1, 2] @ replicate 32 170))
   \<and> handle (nativeReset sim_lib source_build 7 (Some [1, 2]) (session 1 sim_idle)) = Inr 7
   \<and> live_after (nativeReset sim_lib source_build 7 (Some [1, 2]) (session 1 sim_idle)) 7
       = Some (sim_context 1)
   \<and> calls_after (nativeReset sim_lib source_build 7 (Some [1, 2]) (session 1 sim_idle))
       = [Avcodec_flush_buffers 7]"
proof -
  have s2: "(7::nat) \<noteq> NULL" "contexts (session 2 sim_idle) 7 = Some (sim_context 2)"
    and s1: "(7::nat) \<noteq> NULL" "contexts (session 1 sim_idle) 7 = Some (sim_context 1)"
    by (simp_all add: session_def)
  have truehd: "nativeReset sim_lib source_build 7 (Some [1, 2]) (session 2 sim_idle)
      = createContext sim_lib source_build 2 (Some [1, 2])
          (libcall (Avcodec_find_decoder 86060) sim_idle
             (libcall (Avcodec_free_context 7) sim_idle
                ((session 2 sim_idle)\<lparr>contexts := (contexts (session 2 sim_idle))(7 := None)\<rparr>)))"
    using nativeReset_truehd_reopens_others_flush [OF s2, of sim_lib source_build "Some [1, 2]"]
    by (simp add: sim_lib_def sim_consts_def sim_context_def releaseContext_def source_build_def
        session_def start_def)
  have other: "nativeReset sim_lib source_build 7 (Some [1, 2]) (session 1 sim_idle)
      = Inr (7, store_context 7 (sim_context 1)
                  (libcall (Avcodec_flush_buffers 7) (sim_idle\<lparr>frames := []\<rparr>) (session 1 sim_idle)))"
    using nativeReset_truehd_reopens_others_flush [OF s1, of sim_lib source_build "Some [1, 2]"]
    by (simp add: sim_lib_def sim_consts_def sim_context_def session_def start_def)
  show ?thesis
    unfolding truehd other
    by (simp add: handle_def live_after_def calls_after_def createContext_def createContext_open_def
        createContext_extradata_def in_int_def INT_MIN_def INT_MAX_def map_replicate_const Let_def sim_defs)
qed

text \<open>Claim C9. Reset of a TrueHD session is not atomic. The session is released first. If
  the decoder lookup that follows finds nothing, or the re-creation returns 0, reset
  returns 0. And whenever reset returns 0, the context at the old handle is no longer live
  and \<open>avcodec_free_context\<close> was called on it: the caller is told of a failure and is left
  with a dead handle.\<close>

theorem truehd_reset_failure_destroys_session:
  assumes session: "jContext \<noteq> NULL" "contexts w jContext = Some c"
    and truehd: "codec_id c = AV_CODEC_ID_TRUEHD (hdr L)"
    and released: "releaseContext L B jContext w = Inr w1"
    and w2: "w2 = libcall (Avcodec_find_decoder (codec_id c)) (lib w1) w1"
  shows "(avcodec_find_decoder L (lib w1) (codec_id c) = NULL \<longrightarrow>
            handle (nativeReset L B jContext extraData w) = Inr 0)
       \<and> (avcodec_find_decoder L (lib w1) (codec_id c) \<noteq> NULL
            \<and> handle (createContext L B (avcodec_find_decoder L (lib w1) (codec_id c)) extraData w2)
                = Inr 0 \<longrightarrow>
            handle (nativeReset L B jContext extraData w) = Inr 0)
       \<and> (handle (nativeReset L B jContext extraData w) = Inr 0 \<longrightarrow>
            live_after (nativeReset L B jContext extraData w) jContext = None
            \<and> Avcodec_free_context jContext \<in> set (calls_after (nativeReset L B jContext extraData w)))"
proof -
  from releaseContext_live [OF session, of L B] released
  have gone: "contexts w1 jContext = None"
    and freed: "Avcodec_free_context jContext \<in> set (calls w1)"
    by auto
  have reset: "nativeReset L B jContext extraData w
        = (if avcodec_find_decoder L (lib w1) (codec_id c) = NULL
           then Inr (0, LOGE ''Unexpected error finding codec %d.'' w2)
           else createContext L B (avcodec_find_decoder L (lib w1) (codec_id c)) extraData w2)"
    using session truehd released w2 by (simp add: nativeReset_def Let_def)
  have lookup: "avcodec_find_decoder L (lib w1) (codec_id c) = NULL \<longrightarrow>
            handle (nativeReset L B jContext extraData w) = Inr 0"
    by (simp add: reset handle_def)
  have create: "avcodec_find_decoder L (lib w1) (codec_id c) \<noteq> NULL
            \<and> handle (createContext L B (avcodec_find_decoder L (lib w1) (codec_id c)) extraData w2)
                = Inr 0 \<longrightarrow>
            handle (nativeReset L B jContext extraData w) = Inr 0"
    by (simp add: reset)
  have dead: "live_after (nativeReset L B jContext extraData w) jContext = None
      \<and> Avcodec_free_context jContext \<in> set (calls_after (nativeReset L B jContext extraData w))"
    if zero: "handle (nativeReset L B jContext extraData w) = Inr 0"
  proof (cases "avcodec_find_decoder L (lib w1) (codec_id c) = NULL")
    case True
    with gone freed show ?thesis
      by (simp add: reset live_after_def calls_after_def w2)
  next
    case False
    with zero reset obtain w' where
      cr: "createContext L B (avcodec_find_decoder L (lib w1) (codec_id c)) extraData w2 = Inr (0, w')"
      by (cases "createContext L B (avcodec_find_decoder L (lib w1) (codec_id c)) extraData w2")
         (auto simp: handle_def)
    from createContext_frame [OF cr] session(1) gone freed
    have "contexts w' jContext = None" "Avcodec_free_context jContext \<in> set (calls w')"
      by (auto simp: w2)
    with False cr show ?thesis
      by (simp add: reset live_after_def calls_after_def)
  qed
  from lookup create dead show ?thesis by blast
qed

text \<open>On the small library with a failing \<open>avcodec_open2\<close>: reset of the TrueHD session at
  address 7 returns 0, and address 7 is dead.\<close>

theorem truehd_reset_failure_destroys_session_witness:
  "handle (nativeReset sim_lib source_build 7 None (session 2 (sim_idle\<lparr>open_result := - 1\<rparr>))) = Inr 0
   \<and> live_after (nativeReset sim_lib source_build 7 None (session 2 (sim_idle\<lparr>open_result := - 1\<rparr>))) 7
       = None
   \<and> Avcodec_free_context 7
       \<in> set (calls_after (nativeReset sim_lib source_build 7 None
                 (session 2 (sim_idle\<lparr>open_result := - 1\<rparr>))))"
proof -
  let ?l = "sim_idle\<lparr>open_result := - 1\<rparr>"
  let ?w1 = "libcall (Avcodec_free_context 7) ?l
               ((session 2 ?l)\<lparr>contexts := (contexts (session 2 ?l))(7 := None)\<rparr>)"
  have s2: "(7::nat) \<noteq> NULL" "contexts (session 2 ?l) 7 = Some (sim_context 2)"
    by (simp_all add: session_def)
  have truehd: "codec_id (sim_context 2) = AV_CODEC_ID_TRUEHD (hdr sim_lib)"
    by (simp add: sim_defs)
  have released: "releaseContext sim_lib source_build 7 (session 2 ?l) = Inr ?w1"
    by (simp add: releaseContext_def source_build_def session_def start_def sim_lib_def)
  have found: "avcodec_find_decoder sim_lib (lib ?w1) (codec_id (sim_context 2)) = 2"
    by (simp add: sim_defs)
  have failed: "handle (createContext sim_lib source_build 2 None
      (libcall (Avcodec_find_decoder (codec_id (sim_context 2))) (lib ?w1) ?w1)) = Inr 0"
    by (simp add: handle_def createContext_def createContext_open_def releaseContext_def
        source_build_def Let_def sim_defs)
  from truehd_reset_failure_destroys_session [OF s2 truehd released refl, of None] found failed
  show ?thesis by simp
qed

subsection \<open>Opening a session with init data\<close>

text \<open>Claim C6 says that the init bytes are copied into the context's side-data region
  followed by zero padding. The bytes are copied and the padding is allocated, but the
  block comes from \<open>av_malloc\<close>, which does not clear it, and nothing writes the padding:
  it holds whatever the allocator left there. On the small library, whose fresh memory
  holds the byte 170, a session opened with the init data 1, 2, 3 has 32 padding bytes of
  170, not of 0.\<close>

theorem extradata_padding_counterexample:
  "map_option extradata
     (live_after (nativeInitialize sim_lib source_build (Some ''h264'') (Some [1, 2, 3]) (start sim_idle)) 100)
     = Some (Some ([1, 2, 3] @ replicate 32 170))
   \<and> [1, 2, 3] @ replicate 32 170 \<noteq> [1, 2, 3] @ replicate 32 (0::byte)"
  by (simp add: nativeInitialize_def getCodecByName_def live_after_def createContext_def
      createContext_open_def createContext_extradata_def in_int_def INT_MIN_def INT_MAX_def
      map_replicate_const Let_def sim_defs)

text \<open>Claim C6, amended. Take an open call with init data for which the context is allocated
  (at a non-null address), the padding size of the library is not negative, the block size
  (init length plus padding size) fits an \<^verbatim>\<open>int\<close>, and \<open>av_malloc\<close> gives a block. Then
  the context that \<open>avcodec_open2\<close> is called on has the requested sample format set, the
  init length as its \<open>extradata_size\<close>, and as its \<open>extradata\<close> a block of init length plus
  padding size bytes: the init bytes first, then the padding bytes as the allocator
  delivered them (\<open>g\<close> is the content of the fresh block). The trace of the call starts
  with the context allocation, the \<open>av_malloc\<close> of that size and the \<open>avcodec_open2\<close> on
  that context.\<close>

theorem extradata_copied_padding_unset:
  assumes alloc: "avcodec_alloc_context3 L (lib w) codec = ((context, c0), l1)" "context \<noteq> NULL"
    and pad: "0 \<le> AV_INPUT_BUFFER_PADDING_SIZE (hdr L)"
      "int (length extraData) + AV_INPUT_BUFFER_PADDING_SIZE (hdr L) \<le> INT_MAX"
    and block: "av_malloc L l1 (int (length extraData) + AV_INPUT_BUFFER_PADDING_SIZE (hdr L))
                  = (Some g, l2)"
    and c1: "c1 = c0\<lparr>request_sample_fmt := AV_SAMPLE_FMT_S16 (hdr L),
                      extradata_size := int (length extraData),
                      extradata := Some (extraData @ map g [length extraData ..<
                         length extraData + nat (AV_INPUT_BUFFER_PADDING_SIZE (hdr L))])\<rparr>"
    and w3: "w3 = store_context context c1
               (libcall (Av_malloc (int (length extraData) + AV_INPUT_BUFFER_PADDING_SIZE (hdr L))) l2
                  (store_context context (c0\<lparr>request_sample_fmt := AV_SAMPLE_FMT_S16 (hdr L)\<rparr>)
                     (libcall (Avcodec_alloc_context3 codec) l1 w)))"
  shows "createContext L B codec (Some extraData) w = createContext_open L B codec context w3
       \<and> contexts w3 context = Some c1
       \<and> (\<exists>evs. calls_after (createContext L B codec (Some extraData) w)
             = calls w @ [Avcodec_alloc_context3 codec,
                 Av_malloc (int (length extraData) + AV_INPUT_BUFFER_PADDING_SIZE (hdr L)),
                 Avcodec_open2 context c1 codec] @ evs)"
proof -
  let ?n = "int (length extraData) + AV_INPUT_BUFFER_PADDING_SIZE (hdr L)"
  have nat_n: "nat ?n = length extraData + nat (AV_INPUT_BUFFER_PADDING_SIZE (hdr L))"
    using pad(1) by (simp add: nat_add_distrib)
  have range: "in_int ?n" "\<not> ?n < int (length extraData)"
    using pad by (simp_all add: in_int_def INT_MIN_def INT_MAX_def)
  have ext: "createContext_extradata L B context
               (c0\<lparr>request_sample_fmt := AV_SAMPLE_FMT_S16 (hdr L)\<rparr>) extraData
               (store_context context (c0\<lparr>request_sample_fmt := AV_SAMPLE_FMT_S16 (hdr L)\<rparr>)
                  (libcall (Avcodec_alloc_context3 codec) l1 w))
             = Inr (True, w3)"
    using range block nat_n by (simp add: createContext_extradata_def Let_def c1 w3)
  have create: "createContext L B codec (Some extraData) w = createContext_open L B codec context w3"
    using alloc ext by (simp add: createContext_def)
  have opened: "\<exists>evs. calls_after (createContext_open L B codec context w3)
                  = calls w3 @ [Avcodec_open2 context c1 codec] @ evs"
    using alloc(2)
    by (auto simp: createContext_open_def releaseContext_def calls_after_def Let_def w3
        split: prod.splits)
  from create opened show ?thesis
    by (simp add: w3)
qed

text \<open>On the small library: the session created with the init data 1, 2, 3 holds them with
  32 bytes from the allocator behind, and 3 as the size.\<close>

theorem extradata_copied_padding_unset_witness:
  "map_option extradata
     (live_after (createContext sim_lib source_build 1 (Some [1, 2, 3]) (start sim_idle)) 100)
     = Some (Some ([1, 2, 3] @ replicate 32 170))
   \<and> map_option extradata_size
     (live_after (createContext sim_lib source_build 1 (Some [1, 2, 3]) (start sim_idle)) 100)
     = Some 3"
proof -
  have alloc: "avcodec_alloc_context3 sim_lib (lib (start sim_idle)) 1
      = ((100, sim_context 1), sim_idle\<lparr>next_ptr := 101\<rparr>)" "(100::nat) \<noteq> NULL"
    by (simp_all add: sim_lib_def start_def sim_idle_def)
  have pad: "0 \<le> AV_INPUT_BUFFER_PADDING_SIZE (hdr sim_lib)"
    "int (length [1, 2, 3 :: byte]) + AV_INPUT_BUFFER_PADDING_SIZE (hdr sim_lib) \<le> INT_MAX"
    by (simp_all add: sim_lib_def sim_consts_def INT_MAX_def)
  have block: "av_malloc sim_lib (sim_idle\<lparr>next_ptr := 101\<rparr>)
      (int (length [1, 2, 3 :: byte]) + AV_INPUT_BUFFER_PADDING_SIZE (hdr sim_lib))
      = (Some (\<lambda>i. 170), sim_idle\<lparr>next_ptr := 101\<rparr>)"
    by (simp add: sim_lib_def sim_idle_def)
  from extradata_copied_padding_unset [OF alloc pad block refl refl, of source_build]
  show ?thesis
    by (simp add: live_after_def createContext_open_def map_replicate_const Let_def sim_defs)
qed

subsection \<open>Rounds of the drain loop\<close>

text \<open>A call whose first rounds all go on is the loop run from the state they leave.\<close>

lemma drain_after_rounds:
  "drain_rounds L B k context outputLimit out pos outSize w = Some (out', pos', outSize', w')
   \<Longrightarrow> drain L B (k + fuel) context outputLimit out pos outSize w
       = drain L B fuel context outputLimit out' pos' outSize' w'"
  by (induction k arbitrary: out pos outSize w) (auto split: step.splits)

text \<open>The conversions of a trace, call by call.\<close>

lemma converters_simps [simp]:
  "converters (libcall ev l w) = converters w @ converter ev"
  "converters (store_context p c w) = converters w"
  "converters (LOGE msg w) = converters w"
  "converters (logError L f e w) = converters w"
  by (simp_all add: converters_def)

subsection \<open>Decoding: an output buffer that is too small\<close>

text \<open>Claim C5 says that decode reports buffer-too-small whenever the next decoded unit does
  not fit, for a video frame and for an audio frame. For audio this is so only where the
  audio block is compiled. In the file as written \<^verbatim>\<open>ENABLE_AUDIO\<close> is not defined: an audio
  frame is logged and freed, no size is computed, and the call ends with 0 when the
  library has no more frames. Here an audio session decodes one frame of 1024 stereo
  samples (4096 bytes as 16-bit PCM) into a 16-byte buffer and returns 0, not the
  buffer-too-small code.\<close>

theorem audio_too_small_counterexample:
  "returned (decodePacket sim_lib source_build 2 7 (sim_packet 4) False (Some (replicate 16 0)) 16
      (session 2 (sim_idle\<lparr>per_packet := [(0, sim_audio_frame)]\<rparr>))) = Some (Inr 0)
   \<and> (0::int) \<noteq> AVERROR_BUFFER_TOO_SMALL (hdr sim_lib)
   \<and> av_get_bytes_per_sample sim_lib (AV_SAMPLE_FMT_S16 (hdr sim_lib)) * channels (sim_context 2)
        * avresample_get_out_samples sim_lib sim_idle 0 (nb_samples sim_audio_frame) = 4096"
  by (simp add: returned_def decodePacket_def queue_input_def drain_round_def audio_output_def
      source_build_def sim_audio_frame_def numeral_2_eq_2 AVERROR_def sim_defs)

text \<open>Claim C5, amended. Take a decode call whose feed stage goes on to the drain loop,
  whose first \<open>k\<close> rounds each go on to the next round, and whose round \<open>k + 1\<close> gets a frame.
  (1) Video, in either build: if the context is of video type and the output limit is
  below 8, the call returns the buffer-too-small code, with the output block as the
  earlier rounds left it. (2) Audio, with \<^verbatim>\<open>ENABLE_AUDIO\<close> defined: if the resampler step goes
  on and the size computed for the converted frame (bytes per 16-bit sample times channels
  times output samples, all within \<^verbatim>\<open>int\<close>) added to the bytes already produced exceeds the
  output limit, the call returns the buffer-too-small code, with the output block as the
  earlier rounds left it, and no conversion call is made for the frame. (3) Audio, without
  \<^verbatim>\<open>ENABLE_AUDIO\<close> (the file as written): the frame is logged and freed, nothing is written,
  and the call goes on with the next round as if the frame had not been there; no
  buffer-too-small code is returned for it.\<close>

theorem too_small_reported_nothing_written:
  assumes fed: "queue_input L context packet endOfInput w = Proceed res w0"
    and earlier: "drain_rounds L B k context outputLimit outputBuffer 0 0 w0
                    = Some (out, pos, outSize, w1)"
    and alloc: "av_frame_alloc L (lib w1) = (frame, l1)" "frame \<noteq> NULL"
    and live: "contexts w1 context = Some c"
    and got: "avcodec_receive_frame L l1 c frame = ((0, fr, c'), l2)"
    and w2: "w2 = store_context context c'
                   (libcall (Avcodec_receive_frame context frame) l2 (libcall Av_frame_alloc l1 w1))"
  shows "(codec_type c' = AVMEDIA_TYPE_VIDEO \<and> outputLimit < sizeof_jlong \<longrightarrow>
            decodePacket L B (k + Suc n) context packet endOfInput outputBuffer outputLimit w
              = Some (Inr (AVERROR_BUFFER_TOO_SMALL (hdr L), out,
                  LOGE ''Output buffer size (%d) too small for output data (%d).'' w2)))
       \<and> (codec_type c' \<noteq> AVMEDIA_TYPE_VIDEO \<and> ENABLE_AUDIO B
           \<and> audio_resampler L context c' frame
                (libcall (Av_samples_get_buffer_size (channels c') (nb_samples fr) (sample_fmt c'))
                   (lib w2) w2)
               = Proceed resampleContext w3
           \<and> bufferOutSize = av_get_bytes_per_sample L (AV_SAMPLE_FMT_S16 (hdr L)) * channels c'
               * avresample_get_out_samples L (lib w3) resampleContext (nb_samples fr)
           \<and> in_int (av_get_bytes_per_sample L (AV_SAMPLE_FMT_S16 (hdr L)) * channels c')
           \<and> in_int bufferOutSize \<and> in_int (outSize + bufferOutSize)
           \<and> outputLimit < outSize + bufferOutSize
           \<and> w4 = libcall (Avresample_get_out_samples resampleContext (nb_samples fr)) (lib w3)
                    (libcall (Av_get_bytes_per_sample (AV_SAMPLE_FMT_S16 (hdr L))) (lib w3)
                       (libcall (Av_get_bytes_per_sample (sample_fmt c')) (lib w3) w3)) \<longrightarrow>
            decodePacket L B (k + Suc n) context packet endOfInput outputBuffer outputLimit w
              = Some (Inr (AVERROR_BUFFER_TOO_SMALL (hdr L), out,
                  libcall (Av_frame_free frame) (av_frame_free L (lib w4) frame)
                    (LOGE ''Output buffer size (%d) too small for output data (%d).'' w4)))
            \<and> converters
                 (libcall (Av_frame_free frame) (av_frame_free L (lib w4) frame)
                    (LOGE ''Output buffer size (%d) too small for output data (%d).'' w4))
               = converters w3)
       \<and> (codec_type c' \<noteq> AVMEDIA_TYPE_VIDEO \<and> \<not> ENABLE_AUDIO B \<longrightarrow>
            decodePacket L B (k + Suc n) context packet endOfInput outputBuffer outputLimit w
              = drain L B n context outputLimit out pos outSize
                  (libcall (Av_frame_free frame) (av_frame_free L (lib w2) frame)
                     (LOGE ''Error: ENABLE_AUDIO not defined, but decoding audio.'' w2)))"
proof -
  have call: "decodePacket L B (k + Suc n) context packet endOfInput outputBuffer outputLimit w
      = drain L B (Suc n) context outputLimit out pos outSize w1"
  proof -
    have "decodePacket L B (k + Suc n) context packet endOfInput outputBuffer outputLimit w
        = drain L B (k + Suc n) context outputLimit outputBuffer 0 0 w0"
      using fed by (simp only: decodePacket_def stage.simps)
    also have "\<dots> = drain L B (Suc n) context outputLimit out pos outSize w1"
      by (rule drain_after_rounds [OF earlier])
    finally show ?thesis .
  qed
  have round: "drain_round L B context outputLimit out pos outSize w1
      = (if codec_type c' = AVMEDIA_TYPE_VIDEO
         then if outputLimit < sizeof_jlong
              then Returns (AVERROR_BUFFER_TOO_SMALL (hdr L)) out
                     (LOGE ''Output buffer size (%d) too small for output data (%d).'' w2)
              else (case write_bytes out pos (jlong_bytes frame) of
                      Inl e \<Rightarrow> Fault e
                    | Inr out' \<Rightarrow> Returns sizeof_jlong out' w2)
         else audio_output L B context c' frame fr outputLimit out pos outSize w2)"
    using alloc live got unfolding w2 by (simp add: drain_round_def)
  have video: "codec_type c' = AVMEDIA_TYPE_VIDEO \<and> outputLimit < sizeof_jlong \<longrightarrow>
            decodePacket L B (k + Suc n) context packet endOfInput outputBuffer outputLimit w
              = Some (Inr (AVERROR_BUFFER_TOO_SMALL (hdr L), out,
                  LOGE ''Output buffer size (%d) too small for output data (%d).'' w2))"
    unfolding call by (simp add: round)
  have audio: "decodePacket L B (k + Suc n) context packet endOfInput outputBuffer outputLimit w
              = Some (Inr (AVERROR_BUFFER_TOO_SMALL (hdr L), out,
                  libcall (Av_frame_free frame) (av_frame_free L (lib w4) frame)
                    (LOGE ''Output buffer size (%d) too small for output data (%d).'' w4)))
            \<and> converters
                 (libcall (Av_frame_free frame) (av_frame_free L (lib w4) frame)
                    (LOGE ''Output buffer size (%d) too small for output data (%d).'' w4))
               = converters w3"
    if "codec_type c' \<noteq> AVMEDIA_TYPE_VIDEO" "ENABLE_AUDIO B"
      "audio_resampler L context c' frame
                (libcall (Av_samples_get_buffer_size (channels c') (nb_samples fr) (sample_fmt c'))
                   (lib w2) w2)
               = Proceed resampleContext w3"
      "bufferOutSize = av_get_bytes_per_sample L (AV_SAMPLE_FMT_S16 (hdr L)) * channels c'
               * avresample_get_out_samples L (lib w3) resampleContext (nb_samples fr)"
      "in_int (av_get_bytes_per_sample L (AV_SAMPLE_FMT_S16 (hdr L)) * channels c')"
      "in_int bufferOutSize" "in_int (outSize + bufferOutSize)"
      "outputLimit < outSize + bufferOutSize"
      "w4 = libcall (Avresample_get_out_samples resampleContext (nb_samples fr)) (lib w3)
                    (libcall (Av_get_bytes_per_sample (AV_SAMPLE_FMT_S16 (hdr L))) (lib w3)
                       (libcall (Av_get_bytes_per_sample (sample_fmt c')) (lib w3) w3))"
    using that unfolding call by (simp add: round audio_output_def audio_convert_def Let_def)
  have dropped: "codec_type c' \<noteq> AVMEDIA_TYPE_VIDEO \<and> \<not> ENABLE_AUDIO B \<longrightarrow>
            decodePacket L B (k + Suc n) context packet endOfInput outputBuffer outputLimit w
              = drain L B n context outputLimit out pos outSize
                  (libcall (Av_frame_free frame) (av_frame_free L (lib w2) frame)
                     (LOGE ''Error: ENABLE_AUDIO not defined, but decoding audio.'' w2))"
    unfolding call by (simp add: round audio_output_def)
  from video audio dropped show ?thesis by blast
qed

text \<open>On the small library: a video frame and a 7-byte buffer; two audio frames of 4096
  converted bytes each and a buffer of 8191 bytes in the audio build, where the call
  returns the code for the second frame with the first frame's bytes in place and the
  rest of the buffer untouched; an audio frame and a 16-byte buffer in the build of the
  file as written, where the call returns 0.\<close>

theorem too_small_reported_nothing_written_witness:
  "returned (decodePacket sim_lib source_build 1 7 (sim_packet 4) False (Some (replicate 7 9)) 7
      (session 1 (sim_idle\<lparr>per_packet := [(0, sim_frame)]\<rparr>))) = Some (Inr (- 1397118274))
   \<and> output_block (decodePacket sim_lib source_build 1 7 (sim_packet 4) False (Some (replicate 7 9)) 7
      (session 1 (sim_idle\<lparr>per_packet := [(0, sim_frame)]\<rparr>))) = Some (replicate 7 9)
   \<and> returned (decodePacket sim_lib audio_build 2 7 (sim_packet 4) False (Some (replicate 8191 9)) 8191
      (resampling (sim_idle\<lparr>per_packet := [(0, sim_audio_frame), (0, sim_audio_frame)]\<rparr>)))
       = Some (Inr (- 1397118274))
   \<and> output_block (decodePacket sim_lib audio_build 2 7 (sim_packet 4) False
      (Some (replicate 8191 9)) 8191
      (resampling (sim_idle\<lparr>per_packet := [(0, sim_audio_frame), (0, sim_audio_frame)]\<rparr>)))
       = Some (replicate 4096 0 @ replicate 4095 9)
   \<and> returned (decodePacket sim_lib source_build 2 7 (sim_packet 4) False (Some (replicate 16 9)) 16
      (session 2 (sim_idle\<lparr>per_packet := [(0, sim_audio_frame)]\<rparr>))) = Some (Inr 0)
   \<and> output_block (decodePacket sim_lib source_build 2 7 (sim_packet 4) False (Some (replicate 16 9)) 16
      (session 2 (sim_idle\<lparr>per_packet := [(0, sim_audio_frame)]\<rparr>))) = Some (replicate 16 9)"
proof -
  let ?vl = "sim_idle\<lparr>per_packet := [(0, sim_frame)]\<rparr>"
  let ?vw = "store_context 7 (sim_context 1)
               (libcall (Avcodec_send_packet 7 (sim_packet 4)) (?vl\<lparr>frames := [(0, sim_frame)]\<rparr>)
                  (session 1 ?vl))"
  have fed: "queue_input sim_lib 7 (sim_packet 4) False (session 1 ?vl) = Proceed 0 ?vw"
    by (simp add: queue_input_def sim_defs)
  have earlier: "drain_rounds sim_lib source_build 0 7 7 (Some (replicate 7 9)) 0 0 ?vw
      = Some (Some (replicate 7 9), 0, 0, ?vw)"
    by simp
  have alloc: "av_frame_alloc sim_lib (lib ?vw)
      = (100, ?vl\<lparr>frames := [(0, sim_frame)], next_ptr := 101\<rparr>)" "(100::nat) \<noteq> NULL"
    by (simp_all add: sim_defs)
  have live: "contexts ?vw 7 = Some (sim_context 1)"
    by simp
  have got: "avcodec_receive_frame sim_lib (?vl\<lparr>frames := [(0, sim_frame)], next_ptr := 101\<rparr>)
        (sim_context 1) 100
      = ((0, sim_frame, sim_context 1), ?vl\<lparr>frames := [], next_ptr := 101\<rparr>)"
    by (simp add: sim_defs)
  have small: "codec_type (sim_context 1) = AVMEDIA_TYPE_VIDEO \<and> (7::int) < sizeof_jlong"
    by (simp add: sim_context_def sizeof_jlong_def)
  from too_small_reported_nothing_written [OF fed earlier alloc live got refl, where n = 0]
    small
  have video: "decodePacket sim_lib source_build (0 + Suc 0) 7 (sim_packet 4) False
      (Some (replicate 7 9)) 7 (session 1 ?vl)
    = Some (Inr (AVERROR_BUFFER_TOO_SMALL (hdr sim_lib), Some (replicate 7 9),
         LOGE ''Output buffer size (%d) too small for output data (%d).''
           (store_context 7 (sim_context 1)
              (libcall (Avcodec_receive_frame 7 100) (?vl\<lparr>frames := [], next_ptr := 101\<rparr>)
                 (libcall Av_frame_alloc (?vl\<lparr>frames := [(0, sim_frame)], next_ptr := 101\<rparr>) ?vw)))))"
    by blast
  let ?al = "sim_idle\<lparr>per_packet := [(0, sim_audio_frame), (0, sim_audio_frame)]\<rparr>"
  let ?c = "sim_context 2\<lparr>opaque := 55\<rparr>"
  let ?aw = "store_context 7 ?c
               (libcall (Avcodec_send_packet 7 (sim_packet 4))
                  (?al\<lparr>frames := [(0, sim_audio_frame), (0, sim_audio_frame)]\<rparr>)
                  (resampling ?al))"
  have afed: "queue_input sim_lib 7 (sim_packet 4) False (resampling ?al) = Proceed 0 ?aw"
    by (simp add: queue_input_def resampling_def sim_defs)
  have "\<exists>w1. drain_rounds sim_lib audio_build 1 7 8191 (Some (replicate 8191 9)) 0 0 ?aw
          = Some (Some (replicate 4096 0 @ replicate 4095 9), 4096, 4096, w1)
        \<and> lib w1 = ?al\<lparr>frames := [(0, sim_audio_frame)], next_ptr := 101\<rparr>
        \<and> contexts w1 7 = Some ?c"
    by (simp add: drain_round_def audio_output_def audio_resampler_def audio_convert_def
        write_bytes_def in_int_def INT_MIN_def INT_MAX_def audio_build_def resampling_def
        sim_audio_frame_def Let_def sim_defs)
  then obtain w1 where
    aearlier: "drain_rounds sim_lib audio_build 1 7 8191 (Some (replicate 8191 9)) 0 0 ?aw
          = Some (Some (replicate 4096 0 @ replicate 4095 9), 4096, 4096, w1)"
    and alib: "lib w1 = ?al\<lparr>frames := [(0, sim_audio_frame)], next_ptr := 101\<rparr>"
    and alive: "contexts w1 7 = Some ?c"
    by blast
  have aalloc: "av_frame_alloc sim_lib (lib w1)
      = (101, ?al\<lparr>frames := [(0, sim_audio_frame)], next_ptr := 102\<rparr>)" "(101::nat) \<noteq> NULL"
    by (simp_all add: alib sim_defs)
  have agot: "avcodec_receive_frame sim_lib (?al\<lparr>frames := [(0, sim_audio_frame)], next_ptr := 102\<rparr>)
        ?c 101
      = ((0, sim_audio_frame, ?c), ?al\<lparr>frames := [], next_ptr := 102\<rparr>)"
    by (simp add: sim_defs)
  let ?s2 = "store_context 7 ?c
               (libcall (Avcodec_receive_frame 7 101) (?al\<lparr>frames := [], next_ptr := 102\<rparr>)
                  (libcall Av_frame_alloc (?al\<lparr>frames := [(0, sim_audio_frame)], next_ptr := 102\<rparr>)
                     w1))"
  let ?s3 = "libcall (Av_samples_get_buffer_size (channels ?c) (nb_samples sim_audio_frame)
                (sample_fmt ?c)) (lib ?s2) ?s2"
  let ?s4 = "libcall (Avresample_get_out_samples 55 (nb_samples sim_audio_frame)) (lib ?s3)
               (libcall (Av_get_bytes_per_sample (AV_SAMPLE_FMT_S16 (hdr sim_lib))) (lib ?s3)
                  (libcall (Av_get_bytes_per_sample (sample_fmt ?c)) (lib ?s3) ?s3))"
  have big: "codec_type ?c \<noteq> AVMEDIA_TYPE_VIDEO \<and> ENABLE_AUDIO audio_build
      \<and> audio_resampler sim_lib 7 ?c 101 ?s3 = Proceed 55 ?s3
      \<and> 4096 = av_get_bytes_per_sample sim_lib (AV_SAMPLE_FMT_S16 (hdr sim_lib)) * channels ?c
          * avresample_get_out_samples sim_lib (lib ?s3) 55 (nb_samples sim_audio_frame)
      \<and> in_int (av_get_bytes_per_sample sim_lib (AV_SAMPLE_FMT_S16 (hdr sim_lib)) * channels ?c)
      \<and> in_int 4096 \<and> in_int (4096 + 4096) \<and> (8191::int) < 4096 + 4096"
    by (simp add: audio_build_def audio_resampler_def in_int_def INT_MIN_def INT_MAX_def
        sim_audio_frame_def sim_defs)
  from too_small_reported_nothing_written [OF afed aearlier aalloc alive agot refl,
      where n = 0 and resampleContext = 55 and bufferOutSize = 4096 and ?w3.0 = ?s3
        and ?w4.0 = ?s4]
    big
  have audio: "decodePacket sim_lib audio_build (1 + Suc 0) 7 (sim_packet 4) False
      (Some (replicate 8191 9)) 8191 (resampling ?al)
    = Some (Inr (AVERROR_BUFFER_TOO_SMALL (hdr sim_lib), Some (replicate 4096 0 @ replicate 4095 9),
         libcall (Av_frame_free 101) (av_frame_free sim_lib (lib ?s4) 101)
           (LOGE ''Output buffer size (%d) too small for output data (%d).'' ?s4)))"
    by blast
  let ?dl = "sim_idle\<lparr>per_packet := [(0, sim_audio_frame)]\<rparr>"
  let ?dw = "store_context 7 (sim_context 2)
               (libcall (Avcodec_send_packet 7 (sim_packet 4)) (?dl\<lparr>frames := [(0, sim_audio_frame)]\<rparr>)
                  (session 2 ?dl))"
  let ?d2 = "store_context 7 (sim_context 2)
               (libcall (Avcodec_receive_frame 7 100) (?dl\<lparr>frames := [], next_ptr := 101\<rparr>)
                  (libcall Av_frame_alloc (?dl\<lparr>frames := [(0, sim_audio_frame)], next_ptr := 101\<rparr>)
                     ?dw))"
  have dfed: "queue_input sim_lib 7 (sim_packet 4) False (session 2 ?dl) = Proceed 0 ?dw"
    by (simp add: queue_input_def sim_defs)
  have dearlier: "drain_rounds sim_lib source_build 0 7 16 (Some (replicate 16 9)) 0 0 ?dw
      = Some (Some (replicate 16 9), 0, 0, ?dw)"
    by simp
  have dalloc: "av_frame_alloc sim_lib (lib ?dw)
      = (100, ?dl\<lparr>frames := [(0, sim_audio_frame)], next_ptr := 101\<rparr>)" "(100::nat) \<noteq> NULL"
    by (simp_all add: sim_defs)
  have dlive: "contexts ?dw 7 = Some (sim_context 2)"
    by simp
  have dgot: "avcodec_receive_frame sim_lib (?dl\<lparr>frames := [(0, sim_audio_frame)], next_ptr := 101\<rparr>)
        (sim_context 2) 100
      = ((0, sim_audio_frame, sim_context 2), ?dl\<lparr>frames := [], next_ptr := 101\<rparr>)"
    by (simp add: sim_defs)
  have off: "codec_type (sim_context 2) \<noteq> AVMEDIA_TYPE_VIDEO \<and> \<not> ENABLE_AUDIO source_build"
    by (simp add: sim_context_def source_build_def)
  from too_small_reported_nothing_written [OF dfed dearlier dalloc dlive dgot refl, where n = 1]
    off
  have dropped: "decodePacket sim_lib source_build (0 + Suc 1) 7 (sim_packet 4) False
      (Some (replicate 16 9)) 16 (session 2 ?dl)
    = drain sim_lib source_build 1 7 16 (Some (replicate 16 9)) 0 0
        (libcall (Av_frame_free 100) (av_frame_free sim_lib (lib ?d2) 100)
           (LOGE ''Error: ENABLE_AUDIO not defined, but decoding audio.'' ?d2))"
    by blast
  have fuel: "(0::nat) + Suc 0 = 1" "(1::nat) + Suc 0 = 2" "(0::nat) + Suc 1 = 2"
    by simp_all
  show ?thesis
    using video audio dropped unfolding fuel
    by (simp add: returned_def output_block_def drain_round_def AVERROR_def sim_defs)
qed

subsection \<open>The resampler slot\<close>

lemma attached_simps [simp]:
  "attached (libcall ev l w) p = attached w p"
  "attached (LOGE msg w) p = attached w p"
  "attached (logError L f e w) p = attached w p"
  "attached (store_context p c w) p = Some (opaque c)"
  by (simp_all add: attached_def)

lemma resampler_allocs_simps [simp]:
  "resampler_allocs (libcall ev l w)
     = resampler_allocs w + (if ev = Avresample_alloc_context then 1 else 0)"
  "resampler_allocs (store_context p c w) = resampler_allocs w"
  "resampler_allocs (LOGE msg w) = resampler_allocs w"
  "resampler_allocs (logError L f e w) = resampler_allocs w"
  by (simp_all add: resampler_allocs_def)

lemma set_resample_options_calls:
  "calls (set_resample_options L rc opts w)
     = calls w @ map (\<lambda>(name, val). Av_opt_set_int rc name val) opts"
  unfolding set_resample_options_def
  by (induction opts arbitrary: w) auto

lemma set_resample_options_simps [simp]:
  "contexts (set_resample_options L rc opts w) = contexts w"
  "resampler_allocs (set_resample_options L rc opts w) = resampler_allocs w"
  "converters (set_resample_options L rc opts w) = converters w"
  unfolding set_resample_options_def
  by (induction opts arbitrary: w) auto

lemma keeps_opaque_send:
  "keeps_opaque L \<Longrightarrow> avcodec_send_packet L l c packet = ((r, c'), l') \<Longrightarrow> opaque c' = opaque c"
  unfolding keeps_opaque_def by (metis fst_conv snd_conv)

lemma keeps_opaque_receive:
  "keeps_opaque L \<Longrightarrow> avcodec_receive_frame L l c frame = ((r, fr, c'), l') \<Longrightarrow> opaque c' = opaque c"
  unfolding keeps_opaque_def by (metis fst_conv snd_conv)

lemma keeps_opaque_flush:
  "keeps_opaque L \<Longrightarrow> avcodec_flush_buffers L l c = (c', l') \<Longrightarrow> opaque c' = opaque c"
  unfolding keeps_opaque_def by (metis fst_conv)

lemma opened_is_allocated:
  "opens_only_allocated L \<Longrightarrow> avresample_open L l rc = (0, l') \<Longrightarrow> rc \<noteq> NULL"
  unfolding opens_only_allocated_def by (metis fst_conv)

text \<open>What the conversion of one frame does to the state.\<close>

lemma audio_convert_effects:
  "step_world (audio_convert L c frame fr rc outputLimit out pos outSize w) = Some w'
   \<Longrightarrow> contexts w' = contexts w \<and> resampler_allocs w' = resampler_allocs w
       \<and> (converters w' = converters w \<or> converters w' = converters w @ [rc])
       \<and> (\<exists>evs. calls w' = calls w @ evs)"
  by (auto simp: audio_convert_def Let_def split: if_splits prod.splits sum.splits)

text \<open>What the resampler step does to the state when the slot is empty.\<close>

lemma audio_resampler_fails:
  assumes "opaque c = NULL" "audio_resampler L context c frame w = Returned r w'"
  shows "contexts w' = contexts w \<and> resampler_allocs w' = resampler_allocs w + 1
       \<and> converters w' = converters w \<and> (\<exists>evs. calls w' = calls w @ evs)"
  using assms
  by (auto simp: audio_resampler_def Let_def set_resample_options_calls
      split: if_splits prod.splits)

lemma audio_resampler_creates:
  assumes "opaque c = NULL" "audio_resampler L context c frame w = Proceed rc w'"
  shows "rc = fst (avresample_alloc_context L (lib w))
       \<and> contexts w' = (contexts w)(context \<mapsto> c\<lparr>opaque := rc\<rparr>)
       \<and> resampler_allocs w' = resampler_allocs w + 1
       \<and> converters w' = converters w
       \<and> calls w' = calls w @
            [Avresample_alloc_context,
             Av_opt_set_int rc ''in_channel_layout'' (to_int (channel_layout c)),
             Av_opt_set_int rc ''out_channel_layout'' (to_int (channel_layout c)),
             Av_opt_set_int rc ''in_sample_rate'' (sample_rate c),
             Av_opt_set_int rc ''out_sample_rate'' (sample_rate c),
             Av_opt_set_int rc ''in_sample_fmt'' (sample_fmt c),
             Av_opt_set_int rc ''out_sample_fmt'' (AV_SAMPLE_FMT_S16 (hdr L)),
             Avresample_open rc]
       \<and> (opens_only_allocated L \<longrightarrow> rc \<noteq> NULL)"
  using assms
  by (auto simp: audio_resampler_def Let_def set_resample_options_calls
      split: if_splits prod.splits dest: opened_is_allocated)


text \<open>One round of the loop, for a session whose slot holds the resampler \<open>p\<close> or in a
  build without the audio block: the slot and the number of resamplers stay, and a
  conversion that is made is made with \<open>p\<close>.\<close>

lemma drain_round_keeps:
  assumes keeps: "keeps_opaque L"
    and round: "step_world (drain_round L B context outputLimit out pos outSize w) = Some w'"
    and slot: "attached w context = Some p"
    and set: "p \<noteq> NULL \<or> \<not> ENABLE_AUDIO B"
  shows "attached w' context = Some p \<and> resampler_allocs w' = resampler_allocs w
       \<and> (converters w' = converters w \<or> ENABLE_AUDIO B \<and> converters w' = converters w @ [p])
       \<and> (\<exists>evs. calls w' = calls w @ evs)"
proof -
  obtain frame l1 where alloc: "av_frame_alloc L (lib w) = (frame, l1)"
    by (cases "av_frame_alloc L (lib w)")
  from slot obtain c where live: "contexts w context = Some c" and p: "opaque c = p"
    by (auto simp: attached_def)
  obtain result fr c' l2 where got: "avcodec_receive_frame L l1 c frame = ((result, fr, c'), l2)"
    by (metis surj_pair)
  from keeps_opaque_receive [OF keeps got] p have p': "opaque c' = p" by simp
  let ?w2 = "store_context context c'
               (libcall (Avcodec_receive_frame context frame) l2 (libcall Av_frame_alloc l1 w))"
  show ?thesis
  proof (cases "frame \<noteq> NULL \<and> result = 0 \<and> codec_type c' \<noteq> AVMEDIA_TYPE_VIDEO")
    case audio: True
    with round alloc live got
    have out: "step_world (audio_output L B context c' frame fr outputLimit out pos outSize ?w2)
        = Some w'"
      by (simp add: drain_round_def)
    show ?thesis
    proof (cases "ENABLE_AUDIO B")
      case True
      with set p' out have "step_world (audio_convert L c' frame fr p outputLimit out pos outSize
          (libcall (Av_samples_get_buffer_size (channels c') (nb_samples fr) (sample_fmt c'))
             (lib ?w2) ?w2)) = Some w'"
        by (auto simp: audio_output_def audio_resampler_def)
      from audio_convert_effects [OF this] True p' show ?thesis
        by (auto simp: attached_def)
    next
      case False
      with out p' show ?thesis by (auto simp: audio_output_def attached_def)
    qed
  next
    case False
    with round alloc live got p' p show ?thesis
      by (auto simp: drain_round_def Let_def attached_def split: if_splits sum.splits)
  qed
qed

text \<open>One round of the loop in the audio build, for a session whose slot is empty: either
  the round leaves the loop with the slot still empty and no conversion made, or it has
  allocated one resampler, which is now in the slot and made the conversion, if one was
  made. A round that goes on to the next is of the second kind.\<close>

lemma drain_round_first:
  assumes keeps: "keeps_opaque L" and opens: "opens_only_allocated L"
    and audio_on: "ENABLE_AUDIO B"
    and round: "step_world (drain_round L B context outputLimit out pos outSize w) = Some w'"
    and slot: "attached w context = Some NULL"
  shows "(attached w' context = Some NULL \<and> converters w' = converters w
            \<and> resampler_allocs w \<le> resampler_allocs w'
            \<and> resampler_allocs w' \<le> resampler_allocs w + 1
            \<and> (\<forall>out' pos' outSize'.
                  drain_round L B context outputLimit out pos outSize w
                    \<noteq> Continue out' pos' outSize' w'))
       \<or> (\<exists>rc. rc \<noteq> NULL \<and> attached w' context = Some rc
              \<and> resampler_allocs w' = resampler_allocs w + 1
              \<and> (converters w' = converters w \<or> converters w' = converters w @ [rc]))"
proof -
  obtain frame l1 where alloc: "av_frame_alloc L (lib w) = (frame, l1)"
    by (cases "av_frame_alloc L (lib w)")
  from slot obtain c where live: "contexts w context = Some c" and p: "opaque c = NULL"
    by (auto simp: attached_def)
  obtain result fr c' l2 where got: "avcodec_receive_frame L l1 c frame = ((result, fr, c'), l2)"
    by (metis surj_pair)
  from keeps_opaque_receive [OF keeps got] p have p': "opaque c' = NULL" by simp
  let ?w2 = "store_context context c'
               (libcall (Avcodec_receive_frame context frame) l2 (libcall Av_frame_alloc l1 w))"
  let ?w3 = "libcall (Av_samples_get_buffer_size (channels c') (nb_samples fr) (sample_fmt c'))
               (lib ?w2) ?w2"
  show ?thesis
  proof (cases "frame \<noteq> NULL \<and> result = 0 \<and> codec_type c' \<noteq> AVMEDIA_TYPE_VIDEO")
    case is_audio: True
    with alloc live got
    have round_eq: "drain_round L B context outputLimit out pos outSize w
        = audio_output L B context c' frame fr outputLimit out pos outSize ?w2"
      by (simp add: drain_round_def)
    show ?thesis
    proof (cases "audio_resampler L context c' frame ?w3")
      case (Faulted e)
      with round audio_on show ?thesis by (simp add: round_eq audio_output_def)
    next
      case (Returned r w3)
      with round audio_on have "w' = w3"
        and no: "audio_output L B context c' frame fr outputLimit out pos outSize ?w2
                   = Returns r out w3"
        by (simp_all add: round_eq audio_output_def)
      with audio_resampler_fails [OF p' Returned] p' show ?thesis
        by (auto simp: round_eq attached_def)
    next
      case (Proceed rc w3)
      note made = audio_resampler_creates [OF p' Proceed]
      from made opens have rc: "rc \<noteq> NULL" by simp
      from Proceed round audio_on
      have "step_world (audio_convert L c' frame fr rc outputLimit out pos outSize w3) = Some w'"
        by (simp add: round_eq audio_output_def)
      from audio_convert_effects [OF this] made rc show ?thesis
        by (auto simp: attached_def)
    qed
  next
    case False
    with round alloc live got p' p show ?thesis
      by (auto simp: drain_round_def Let_def attached_def split: if_splits sum.splits)
  qed
qed

text \<open>An invariant of the rounds that go on, and what it gives when the loop is left.\<close>

lemma drain_exit:
  assumes cont: "\<And>out pos outSize w out' pos' outSize' w'.
      I w \<Longrightarrow> drain_round L B context outputLimit out pos outSize w
                 = Continue out' pos' outSize' w' \<Longrightarrow> I w'"
    and exit: "\<And>out pos outSize w w'.
      I w \<Longrightarrow> step_world (drain_round L B context outputLimit out pos outSize w) = Some w'
      \<Longrightarrow> Q w'"
    and run: "drain L B fuel context outputLimit out pos outSize w = Some (Inr (r, out', w'))"
    and init: "I w"
  shows "Q w'"
  using run init
proof (induction fuel arbitrary: out pos outSize w)
  case 0
  then show ?case by simp
next
  case (Suc fuel)
  show ?case
  proof (cases "drain_round L B context outputLimit out pos outSize w")
    case (Fault e)
    with Suc.prems show ?thesis by simp
  next
    case (Returns r1 out1 w1)
    with Suc.prems exit [of w out pos outSize w1] show ?thesis by simp
  next
    case (Break w1)
    with Suc.prems exit [of w out pos outSize w1] show ?thesis by simp
  next
    case (Continue out1 pos1 outSize1 w1)
    with Suc.prems(1)
    have "drain L B fuel context outputLimit out1 pos1 outSize1 w1 = Some (Inr (r, out', w'))"
      by simp
    moreover from Continue Suc.prems(2) have "I w1"
      by (rule cont [rotated])
    ultimately show ?thesis by (rule Suc.IH)
  qed
qed


lemma replicate_grows:
  assumes "cv' = cv \<or> cv' = cv @ [p]" and "cv = c0 @ replicate k p"
  shows "\<exists>k'. cv' = c0 @ replicate k' p"
proof -
  from assms have "cv' = c0 @ replicate k p \<or> cv' = c0 @ replicate (Suc k) p"
    by (auto simp: replicate_append_same)
  then show ?thesis by blast
qed

lemma drain_keeps:
  assumes keeps: "keeps_opaque L"
    and run: "drain L B fuel context outputLimit out pos outSize w = Some (Inr (r, out', w'))"
    and slot: "attached w context = Some p"
    and set: "p \<noteq> NULL \<or> \<not> ENABLE_AUDIO B"
  shows "attached w' context = Some p \<and> resampler_allocs w' = resampler_allocs w
       \<and> (\<exists>k. converters w' = converters w @ replicate k p)
       \<and> (\<not> ENABLE_AUDIO B \<longrightarrow> converters w' = converters w)
       \<and> (\<exists>evs. calls w' = calls w @ evs)"
proof (rule drain_invariant [where I = "\<lambda>x. attached x context = Some p
        \<and> resampler_allocs x = resampler_allocs w
        \<and> (\<exists>k. converters x = converters w @ replicate k p)
        \<and> (\<not> ENABLE_AUDIO B \<longrightarrow> converters x = converters w)
        \<and> (\<exists>evs. calls x = calls w @ evs)", OF _ run])
  show "attached w context = Some p \<and> resampler_allocs w = resampler_allocs w
        \<and> (\<exists>k. converters w = converters w @ replicate k p)
        \<and> (\<not> ENABLE_AUDIO B \<longrightarrow> converters w = converters w)
        \<and> (\<exists>evs. calls w = calls w @ evs)"
    using slot by (auto intro: exI [of _ 0])
next
  fix out pos outSize x x'
  assume round: "step_world (drain_round L B context outputLimit out pos outSize x) = Some x'"
    and inv: "attached x context = Some p \<and> resampler_allocs x = resampler_allocs w
        \<and> (\<exists>k. converters x = converters w @ replicate k p)
        \<and> (\<not> ENABLE_AUDIO B \<longrightarrow> converters x = converters w)
        \<and> (\<exists>evs. calls x = calls w @ evs)"
  from inv obtain k evs where k: "converters x = converters w @ replicate k p"
    and evs: "calls x = calls w @ evs"
    by blast
  from drain_round_keeps [OF keeps round _ set] inv
  have step: "attached x' context = Some p" "resampler_allocs x' = resampler_allocs x"
    "converters x' = converters x \<or> ENABLE_AUDIO B \<and> converters x' = converters x @ [p]"
    "\<exists>evs'. calls x' = calls x @ evs'"
    by blast+
  from step(3) have "converters x' = converters x \<or> converters x' = converters x @ [p]"
    by blast
  from replicate_grows [OF this k]
  have "\<exists>k'. converters x' = converters w @ replicate k' p" .
  moreover from step(4) evs have "\<exists>evs'. calls x' = calls w @ evs'"
    by auto
  ultimately
  show "attached x' context = Some p \<and> resampler_allocs x' = resampler_allocs w
        \<and> (\<exists>k. converters x' = converters w @ replicate k p)
        \<and> (\<not> ENABLE_AUDIO B \<longrightarrow> converters x' = converters w)
        \<and> (\<exists>evs. calls x' = calls w @ evs)"
    using step inv by auto
qed

lemma drain_first:
  assumes keeps: "keeps_opaque L" and opens: "opens_only_allocated L"
    and audio_on: "ENABLE_AUDIO B"
    and run: "drain L B fuel context outputLimit out pos outSize w = Some (Inr (r, out', w'))"
    and slot: "attached w context = Some NULL"
  shows "resampler_allocs w \<le> resampler_allocs w'
       \<and> resampler_allocs w' \<le> resampler_allocs w + 1
       \<and> (attached w' context = Some NULL \<and> converters w' = converters w
          \<or> (\<exists>rc k. rc \<noteq> NULL \<and> attached w' context = Some rc
                \<and> resampler_allocs w' = resampler_allocs w + 1
                \<and> converters w' = converters w @ replicate k rc))"
proof -
  let ?P1 = "\<lambda>x. attached x context = Some NULL \<and> resampler_allocs x = resampler_allocs w
               \<and> converters x = converters w"
  let ?P2 = "\<lambda>x. \<exists>rc k. rc \<noteq> NULL \<and> attached x context = Some rc
               \<and> resampler_allocs x = resampler_allocs w + 1
               \<and> converters x = converters w @ replicate k rc"
  let ?Q = "\<lambda>x. resampler_allocs w \<le> resampler_allocs x
               \<and> resampler_allocs x \<le> resampler_allocs w + 1
               \<and> (attached x context = Some NULL \<and> converters x = converters w \<or> ?P2 x)"
  have second: "?P2 x'"
    if "?P2 x" "step_world (drain_round L B context outputLimit o1 p1 s1 x) = Some x'"
    for x x' o1 p1 s1
  proof -
    from that(1) obtain rc k where rc: "rc \<noteq> NULL" "attached x context = Some rc"
      "resampler_allocs x = resampler_allocs w + 1" "converters x = converters w @ replicate k rc"
      by blast
    from drain_round_keeps [OF keeps that(2) rc(2)] rc(1)
    have step: "attached x' context = Some rc" "resampler_allocs x' = resampler_allocs x"
      "converters x' = converters x \<or> converters x' = converters x @ [rc]"
      by blast+
    from replicate_grows [OF step(3) rc(4)]
    have "\<exists>k'. converters x' = converters w @ replicate k' rc" .
    with rc step show ?thesis by auto
  qed
  have first: "(attached x' context = Some NULL \<and> converters x' = converters w
                  \<and> resampler_allocs w \<le> resampler_allocs x'
                  \<and> resampler_allocs x' \<le> resampler_allocs w + 1
                  \<and> (\<forall>o2 p2 s2. drain_round L B context outputLimit o1 p1 s1 x
                        \<noteq> Continue o2 p2 s2 x'))
               \<or> ?P2 x'"
    if "?P1 x" "step_world (drain_round L B context outputLimit o1 p1 s1 x) = Some x'"
    for x x' o1 p1 s1
  proof -
    from drain_round_first [OF keeps opens audio_on that(2)] that(1)
    consider "attached x' context = Some NULL \<and> converters x' = converters x
            \<and> resampler_allocs x \<le> resampler_allocs x'
            \<and> resampler_allocs x' \<le> resampler_allocs x + 1
            \<and> (\<forall>o2 p2 s2. drain_round L B context outputLimit o1 p1 s1 x
                  \<noteq> Continue o2 p2 s2 x')"
      | rc where "rc \<noteq> NULL" "attached x' context = Some rc"
          "resampler_allocs x' = resampler_allocs x + 1"
          "converters x' = converters x \<or> converters x' = converters x @ [rc]"
      by blast
    then show ?thesis
    proof cases
      case 1
      with that(1) show ?thesis by simp
    next
      case 2
      from that(1) have "converters x = converters w @ replicate 0 rc" by simp
      from replicate_grows [OF 2(4) this]
      have "\<exists>k. converters x' = converters w @ replicate k rc" .
      with 2 that(1) show ?thesis by auto
    qed
  qed
  have "?Q w'"
  proof (rule drain_exit [where I = "\<lambda>x. ?P1 x \<or> ?P2 x" and Q = ?Q, OF _ _ run])
    show "?P1 w \<or> ?P2 w" using slot by simp
  next
    fix o1 p1 s1 x o2 p2 s2 x'
    assume inv: "?P1 x \<or> ?P2 x"
      and round: "drain_round L B context outputLimit o1 p1 s1 x = Continue o2 p2 s2 x'"
    then have sw: "step_world (drain_round L B context outputLimit o1 p1 s1 x) = Some x'"
      by simp
    from inv show "?P1 x' \<or> ?P2 x'"
    proof
      assume "?P1 x"
      from first [OF this sw] round show ?thesis by blast
    next
      assume "?P2 x"
      from second [OF this sw] show ?thesis by blast
    qed
  next
    fix o1 p1 s1 x x'
    assume inv: "?P1 x \<or> ?P2 x"
      and sw: "step_world (drain_round L B context outputLimit o1 p1 s1 x) = Some x'"
    from inv show "?Q x'"
    proof
      assume "?P1 x"
      from first [OF this sw] show ?thesis by auto
    next
      assume "?P2 x"
      from second [OF this sw] show ?thesis by auto
    qed
  qed
  then show ?thesis .
qed

lemma queue_input_keeps:
  assumes keeps: "keeps_opaque L"
    and fed: "queue_input L context packet endOfInput w = Returned r w1
              \<or> queue_input L context packet endOfInput w = Proceed r w1"
    and slot: "attached w context = Some p"
  shows "attached w1 context = Some p \<and> resampler_allocs w1 = resampler_allocs w
       \<and> converters w1 = converters w \<and> (\<exists>evs. calls w1 = calls w @ evs)"
  using fed slot keeps
  by (auto simp: queue_input_def Let_def attached_def
      split: if_splits option.splits prod.splits dest: keeps_opaque_send)


text \<open>A whole decode call.\<close>

lemma decodePacket_keeps:
  assumes keeps: "keeps_opaque L"
    and run: "decodePacket L B fuel context packet endOfInput out outputLimit w
                = Some (Inr (r, out', w'))"
    and slot: "attached w context = Some p"
    and set: "p \<noteq> NULL \<or> \<not> ENABLE_AUDIO B"
  shows "attached w' context = Some p \<and> resampler_allocs w' = resampler_allocs w
       \<and> (\<exists>k. converters w' = converters w @ replicate k p)
       \<and> (\<not> ENABLE_AUDIO B \<longrightarrow> converters w' = converters w)"
proof (cases "queue_input L context packet endOfInput w")
  case (Faulted e)
  with run show ?thesis by (simp add: decodePacket_def)
next
  case (Returned res w1)
  with run have w1: "w' = w1" by (simp add: decodePacket_def)
  from queue_input_keeps [OF keeps _ slot, of packet endOfInput res w1] Returned
  show ?thesis unfolding w1 by (auto intro: exI [of _ 0])
next
  case (Proceed res w1)
  with run have dr: "drain L B fuel context outputLimit out 0 0 w1 = Some (Inr (r, out', w'))"
    by (simp add: decodePacket_def)
  from queue_input_keeps [OF keeps _ slot, of packet endOfInput res w1] Proceed
  have fed: "attached w1 context = Some p" "resampler_allocs w1 = resampler_allocs w"
    "converters w1 = converters w"
    by simp_all
  from drain_keeps [OF keeps dr fed(1) set] fed show ?thesis by simp
qed

lemma decodePacket_first:
  assumes keeps: "keeps_opaque L" and opens: "opens_only_allocated L"
    and audio_on: "ENABLE_AUDIO B"
    and run: "decodePacket L B fuel context packet endOfInput out outputLimit w
                = Some (Inr (r, out', w'))"
    and slot: "attached w context = Some NULL"
  shows "resampler_allocs w \<le> resampler_allocs w'
       \<and> resampler_allocs w' \<le> resampler_allocs w + 1
       \<and> (attached w' context = Some NULL \<and> converters w' = converters w
          \<or> (\<exists>rc k. rc \<noteq> NULL \<and> attached w' context = Some rc
                \<and> resampler_allocs w' = resampler_allocs w + 1
                \<and> converters w' = converters w @ replicate k rc))"
proof (cases "queue_input L context packet endOfInput w")
  case (Faulted e)
  with run show ?thesis by (simp add: decodePacket_def)
next
  case (Returned res w1)
  with run have w1: "w' = w1" by (simp add: decodePacket_def)
  from queue_input_keeps [OF keeps _ slot, of packet endOfInput res w1] Returned
  show ?thesis unfolding w1 by simp
next
  case (Proceed res w1)
  with run have dr: "drain L B fuel context outputLimit out 0 0 w1 = Some (Inr (r, out', w'))"
    by (simp add: decodePacket_def)
  from queue_input_keeps [OF keeps _ slot, of packet endOfInput res w1] Proceed
  have fed: "attached w1 context = Some NULL" "resampler_allocs w1 = resampler_allocs w"
    "converters w1 = converters w"
    by simp_all
  from drain_first [OF keeps opens audio_on dr fed(1)] fed show ?thesis by simp
qed

lemma nativeDecode_cases:
  assumes "nativeDecode L B fuel context inputData inputSize pts' endOfInput outputData
             outputLimit w = Some (Inr (r, out', w'))"
  shows "(\<exists>msg. w' = LOGE msg w)
       \<or> (\<exists>packet out. decodePacket L B fuel context packet endOfInput out outputLimit w
                          = Some (Inr (r, out', w')))"
  using assms by (auto simp: nativeDecode_def Let_def split: if_splits)

text \<open>One call of a session.\<close>

lemma nativeDecode_keeps:
  assumes keeps: "keeps_opaque L"
    and run: "nativeDecode L B fuel context inputData inputSize pts' endOfInput outputData
                outputLimit w = Some (Inr (r, out', w'))"
    and slot: "attached w context = Some p"
    and set: "p \<noteq> NULL \<or> \<not> ENABLE_AUDIO B"
  shows "attached w' context = Some p \<and> resampler_allocs w' = resampler_allocs w
       \<and> (\<exists>k. converters w' = converters w @ replicate k p)
       \<and> (\<not> ENABLE_AUDIO B \<longrightarrow> converters w' = converters w)"
  using nativeDecode_cases [OF run]
proof (elim disjE exE)
  fix msg assume "w' = LOGE msg w"
  with slot show ?thesis by (auto intro: exI [of _ 0])
next
  fix packet out
  assume "decodePacket L B fuel context packet endOfInput out outputLimit w
            = Some (Inr (r, out', w'))"
  from decodePacket_keeps [OF keeps this slot set] show ?thesis .
qed

lemma nativeDecode_first:
  assumes keeps: "keeps_opaque L" and opens: "opens_only_allocated L"
    and audio_on: "ENABLE_AUDIO B"
    and run: "nativeDecode L B fuel context inputData inputSize pts' endOfInput outputData
                outputLimit w = Some (Inr (r, out', w'))"
    and slot: "attached w context = Some NULL"
  shows "resampler_allocs w \<le> resampler_allocs w'
       \<and> resampler_allocs w' \<le> resampler_allocs w + 1
       \<and> (attached w' context = Some NULL \<and> converters w' = converters w
          \<or> (\<exists>rc k. rc \<noteq> NULL \<and> attached w' context = Some rc
                \<and> resampler_allocs w' = resampler_allocs w + 1
                \<and> converters w' = converters w @ replicate k rc))"
  using nativeDecode_cases [OF run]
proof (elim disjE exE)
  fix msg assume "w' = LOGE msg w"
  with slot show ?thesis by simp
next
  fix packet out
  assume "decodePacket L B fuel context packet endOfInput out outputLimit w
            = Some (Inr (r, out', w'))"
  from decodePacket_first [OF keeps opens audio_on this slot] show ?thesis .
qed

lemma nativeReset_flush_keeps:
  assumes keeps: "keeps_opaque L"
    and live: "contexts w context = Some c"
    and other: "codec_id c \<noteq> AV_CODEC_ID_TRUEHD (hdr L)"
    and run: "nativeReset L B context extraData w = Inr (h, w')"
  shows "attached w' context = Some (opaque c) \<and> resampler_allocs w' = resampler_allocs w
       \<and> converters w' = converters w"
  using run live other keeps
  by (auto simp: nativeReset_def Let_def attached_def split: prod.splits if_splits
      dest: keeps_opaque_flush)

text \<open>A run of calls.\<close>

lemma session_calls_keeps:
  assumes keeps: "keeps_opaque L"
    and set: "p \<noteq> NULL \<or> \<not> ENABLE_AUDIO B"
  shows "session_calls L B fuel context cs w = Some w' \<Longrightarrow> attached w context = Some p
    \<Longrightarrow> attached w' context = Some p \<and> resampler_allocs w' = resampler_allocs w
       \<and> (\<exists>k. converters w' = converters w @ replicate k p)
       \<and> (\<not> ENABLE_AUDIO B \<longrightarrow> converters w' = converters w)"
proof (induction cs arbitrary: w)
  case Nil
  then show ?case by (auto intro: exI [of _ 0])
next
  case (Cons a cs)
  have "\<exists>w1. session_calls L B fuel context cs w1 = Some w'
          \<and> attached w1 context = Some p \<and> resampler_allocs w1 = resampler_allocs w
          \<and> (\<exists>k. converters w1 = converters w @ replicate k p)
          \<and> (\<not> ENABLE_AUDIO B \<longrightarrow> converters w1 = converters w)"
  proof (cases a)
    case (Decode inputData inputSize pts' endOfInput outputData outputLimit)
    with Cons.prems(1) obtain r out w1
      where call: "nativeDecode L B fuel context inputData inputSize pts' endOfInput outputData
                     outputLimit w = Some (Inr (r, out, w1))"
        and rest: "session_calls L B fuel context cs w1 = Some w'"
      by (auto split: option.splits sum.splits)
    from nativeDecode_keeps [OF keeps call Cons.prems(2) set] rest show ?thesis by blast
  next
    case (Reset extraData)
    with Cons.prems(1) obtain c h w1
      where live: "contexts w context = Some c"
        and other: "codec_id c \<noteq> AV_CODEC_ID_TRUEHD (hdr L)"
        and call: "nativeReset L B context extraData w = Inr (h, w1)"
        and rest: "session_calls L B fuel context cs w1 = Some w'"
      by (auto split: option.splits sum.splits if_splits)
    from live Cons.prems(2) have "opaque c = p" by (simp add: attached_def)
    with nativeReset_flush_keeps [OF keeps live other call] rest show ?thesis
      by (auto intro: exI [of _ 0])
  qed
  then obtain w1 k where rest: "session_calls L B fuel context cs w1 = Some w'"
    and w1: "attached w1 context = Some p" "resampler_allocs w1 = resampler_allocs w"
      "converters w1 = converters w @ replicate k p"
      "\<not> ENABLE_AUDIO B \<longrightarrow> converters w1 = converters w"
    by blast
  from Cons.IH [OF rest w1(1)] obtain k' where
    w': "attached w' context = Some p" "resampler_allocs w' = resampler_allocs w1"
      "converters w' = converters w1 @ replicate k' p"
      "\<not> ENABLE_AUDIO B \<longrightarrow> converters w' = converters w1"
    by blast
  from w1(3) w'(3) have "converters w' = converters w @ replicate (k + k') p"
    by (simp add: replicate_add)
  then have "\<exists>n. converters w' = converters w @ replicate n p" ..
  with w1 w' show ?case by simp
qed

lemma session_calls_first:
  assumes keeps: "keeps_opaque L" and opens: "opens_only_allocated L"
    and audio_on: "ENABLE_AUDIO B"
  shows "session_calls L B fuel context cs w = Some w' \<Longrightarrow> attached w context = Some NULL
    \<Longrightarrow> resampler_allocs w \<le> resampler_allocs w'
       \<and> (attached w' context = Some NULL \<and> converters w' = converters w
          \<or> (\<exists>rc k. rc \<noteq> NULL \<and> attached w' context = Some rc
                \<and> resampler_allocs w < resampler_allocs w'
                \<and> converters w' = converters w @ replicate k rc))"
proof (induction cs arbitrary: w)
  case Nil
  then show ?case by simp
next
  case (Cons a cs)
  have "\<exists>w1. session_calls L B fuel context cs w1 = Some w'
          \<and> resampler_allocs w \<le> resampler_allocs w1
          \<and> (attached w1 context = Some NULL \<and> converters w1 = converters w
             \<or> (\<exists>rc k. rc \<noteq> NULL \<and> attached w1 context = Some rc
                   \<and> resampler_allocs w < resampler_allocs w1
                   \<and> converters w1 = converters w @ replicate k rc))"
  proof (cases a)
    case (Decode inputData inputSize pts' endOfInput outputData outputLimit)
    with Cons.prems(1) obtain r out w1
      where call: "nativeDecode L B fuel context inputData inputSize pts' endOfInput outputData
                     outputLimit w = Some (Inr (r, out, w1))"
        and rest: "session_calls L B fuel context cs w1 = Some w'"
      by (auto split: option.splits sum.splits)
    from nativeDecode_first [OF keeps opens audio_on call Cons.prems(2)]
    have "resampler_allocs w \<le> resampler_allocs w1
          \<and> (attached w1 context = Some NULL \<and> converters w1 = converters w
             \<or> (\<exists>rc k. rc \<noteq> NULL \<and> attached w1 context = Some rc
                   \<and> resampler_allocs w < resampler_allocs w1
                   \<and> converters w1 = converters w @ replicate k rc))"
      by auto
    with rest show ?thesis by blast
  next
    case (Reset extraData)
    with Cons.prems(1) obtain c h w1
      where live: "contexts w context = Some c"
        and other: "codec_id c \<noteq> AV_CODEC_ID_TRUEHD (hdr L)"
        and call: "nativeReset L B context extraData w = Inr (h, w1)"
        and rest: "session_calls L B fuel context cs w1 = Some w'"
      by (auto split: option.splits sum.splits if_splits)
    from live Cons.prems(2) have "opaque c = NULL" by (simp add: attached_def)
    with nativeReset_flush_keeps [OF keeps live other call] rest show ?thesis
      by auto
  qed
  then obtain w1 where rest: "session_calls L B fuel context cs w1 = Some w'"
    and grow: "resampler_allocs w \<le> resampler_allocs w1"
    and w1: "attached w1 context = Some NULL \<and> converters w1 = converters w
             \<or> (\<exists>rc k. rc \<noteq> NULL \<and> attached w1 context = Some rc
                   \<and> resampler_allocs w < resampler_allocs w1
                   \<and> converters w1 = converters w @ replicate k rc)"
    by blast
  from w1 show ?case
  proof
    assume still: "attached w1 context = Some NULL \<and> converters w1 = converters w"
    with Cons.IH [OF rest] grow show ?thesis by auto
  next
    assume "\<exists>rc k. rc \<noteq> NULL \<and> attached w1 context = Some rc
                   \<and> resampler_allocs w < resampler_allocs w1
                   \<and> converters w1 = converters w @ replicate k rc"
    then obtain rc k where rc: "rc \<noteq> NULL" "attached w1 context = Some rc"
      "resampler_allocs w < resampler_allocs w1" "converters w1 = converters w @ replicate k rc"
      by blast
    from session_calls_keeps [OF keeps _ rest rc(2)] rc(1) obtain k'
      where w': "attached w' context = Some rc" "resampler_allocs w' = resampler_allocs w1"
        "converters w' = converters w1 @ replicate k' rc"
      by blast
    from rc(4) w'(3) have "converters w' = converters w @ replicate (k + k') rc"
      by (simp add: replicate_add)
    then have "\<exists>n. converters w' = converters w @ replicate n rc" ..
    with rc w' grow show ?thesis by auto
  qed
qed


text \<open>The round in which the resampler is created, inside a whole decode call.\<close>

lemma drain_Suc_exit:
  assumes "drain L B (Suc n) context outputLimit out pos outSize w = Some (Inr (r, out', w'))"
  shows "\<exists>x. step_world (drain_round L B context outputLimit out pos outSize w) = Some x
           \<and> (w' = x \<or> (\<exists>o1 p1 s1. drain L B n context outputLimit o1 p1 s1 x
                                     = Some (Inr (r, out', w'))))"
  using assms by (auto split: step.splits)

lemma decodePacket_creates:
  assumes keeps: "keeps_opaque L" and opens: "opens_only_allocated L"
    and audio_on: "ENABLE_AUDIO B"
    and fed: "queue_input L context packet endOfInput w = Proceed res w0"
    and earlier: "drain_rounds L B k context outputLimit outputBuffer 0 0 w0
                    = Some (out, pos, outSize, w1)"
    and alloc: "av_frame_alloc L (lib w1) = (frame, l1)" "frame \<noteq> NULL"
    and live: "contexts w1 context = Some c"
    and got: "avcodec_receive_frame L l1 c frame = ((0, fr, c'), l2)"
    and audio: "codec_type c' \<noteq> AVMEDIA_TYPE_VIDEO"
    and empty: "opaque c' = NULL"
    and w2: "w2 = libcall (Av_samples_get_buffer_size (channels c') (nb_samples fr) (sample_fmt c'))
                    l2 (store_context context c'
                          (libcall (Avcodec_receive_frame context frame) l2
                             (libcall Av_frame_alloc l1 w1)))"
    and made: "audio_resampler L context c' frame w2 = Proceed rc w3"
    and run: "decodePacket L B (k + Suc n) context packet endOfInput outputBuffer outputLimit w
                = Some (Inr (r, out', w'))"
  shows "rc = fst (avresample_alloc_context L l2) \<and> rc \<noteq> NULL
       \<and> attached w' context = Some rc
       \<and> resampler_allocs w' = resampler_allocs w1 + 1
       \<and> (\<exists>j. converters w' = converters w1 @ replicate j rc)
       \<and> (\<exists>evs. calls w' = calls w1 @
            [Av_frame_alloc, Avcodec_receive_frame context frame,
             Av_samples_get_buffer_size (channels c') (nb_samples fr) (sample_fmt c'),
             Avresample_alloc_context,
             Av_opt_set_int rc ''in_channel_layout'' (to_int (channel_layout c')),
             Av_opt_set_int rc ''out_channel_layout'' (to_int (channel_layout c')),
             Av_opt_set_int rc ''in_sample_rate'' (sample_rate c'),
             Av_opt_set_int rc ''out_sample_rate'' (sample_rate c'),
             Av_opt_set_int rc ''in_sample_fmt'' (sample_fmt c'),
             Av_opt_set_int rc ''out_sample_fmt'' (AV_SAMPLE_FMT_S16 (hdr L)),
             Avresample_open rc] @ evs)"
proof -
  have "decodePacket L B (k + Suc n) context packet endOfInput outputBuffer outputLimit w
          = drain L B (k + Suc n) context outputLimit outputBuffer 0 0 w0"
    by (simp only: decodePacket_def fed stage.simps)
  also have "\<dots> = drain L B (Suc n) context outputLimit out pos outSize w1"
    by (rule drain_after_rounds [OF earlier])
  finally have dr: "drain L B (Suc n) context outputLimit out pos outSize w1
      = Some (Inr (r, out', w'))"
    using run by simp
  have round: "drain_round L B context outputLimit out pos outSize w1
      = audio_convert L c' frame fr rc outputLimit out pos outSize w3"
    using alloc live got audio audio_on made unfolding w2
    by (simp add: drain_round_def audio_output_def)
  from drain_Suc_exit [OF dr] obtain x
    where x: "step_world (audio_convert L c' frame fr rc outputLimit out pos outSize w3) = Some x"
      and rest: "w' = x \<or> (\<exists>o1 p1 s1. drain L B n context outputLimit o1 p1 s1 x
                                     = Some (Inr (r, out', w')))"
    unfolding round by blast
  note created = audio_resampler_creates [OF empty made]
  from created opens have rc: "rc \<noteq> NULL" by simp
  from created have w3: "rc = fst (avresample_alloc_context L l2)"
    "attached w3 context = Some rc" "resampler_allocs w3 = resampler_allocs w1 + 1"
    "converters w3 = converters w1"
    "calls w3 = calls w1 @
            [Av_frame_alloc, Avcodec_receive_frame context frame,
             Av_samples_get_buffer_size (channels c') (nb_samples fr) (sample_fmt c'),
             Avresample_alloc_context,
             Av_opt_set_int rc ''in_channel_layout'' (to_int (channel_layout c')),
             Av_opt_set_int rc ''out_channel_layout'' (to_int (channel_layout c')),
             Av_opt_set_int rc ''in_sample_rate'' (sample_rate c'),
             Av_opt_set_int rc ''out_sample_rate'' (sample_rate c'),
             Av_opt_set_int rc ''in_sample_fmt'' (sample_fmt c'),
             Av_opt_set_int rc ''out_sample_fmt'' (AV_SAMPLE_FMT_S16 (hdr L)),
             Avresample_open rc]"
    unfolding w2 by (simp_all add: attached_def)
  from audio_convert_effects [OF x] w3
  have x_slot: "attached x context = Some rc"
    and x_allocs: "resampler_allocs x = resampler_allocs w1 + 1"
    and x_conv: "converters x = converters w1 \<or> converters x = converters w1 @ [rc]"
    and x_calls: "\<exists>evs. calls x = calls w1 @
            [Av_frame_alloc, Avcodec_receive_frame context frame,
             Av_samples_get_buffer_size (channels c') (nb_samples fr) (sample_fmt c'),
             Avresample_alloc_context,
             Av_opt_set_int rc ''in_channel_layout'' (to_int (channel_layout c')),
             Av_opt_set_int rc ''out_channel_layout'' (to_int (channel_layout c')),
             Av_opt_set_int rc ''in_sample_rate'' (sample_rate c'),
             Av_opt_set_int rc ''out_sample_rate'' (sample_rate c'),
             Av_opt_set_int rc ''in_sample_fmt'' (sample_fmt c'),
             Av_opt_set_int rc ''out_sample_fmt'' (AV_SAMPLE_FMT_S16 (hdr L)),
             Avresample_open rc] @ evs"
    by (auto simp: attached_def)
  have "converters w1 = converters w1 @ replicate 0 rc" by simp
  from replicate_grows [OF x_conv this]
  obtain j where x_rep: "converters x = converters w1 @ replicate j rc" ..
  from rest show ?thesis
  proof
    assume "w' = x"
    with w3(1) rc x_slot x_allocs x_rep x_calls show ?thesis by blast
  next
    assume "\<exists>o1 p1 s1. drain L B n context outputLimit o1 p1 s1 x = Some (Inr (r, out', w'))"
    then obtain o1 p1 s1
      where "drain L B n context outputLimit o1 p1 s1 x = Some (Inr (r, out', w'))"
      by blast
    from drain_keeps [OF keeps this x_slot] rc obtain j' evs'
      where w': "attached w' context = Some rc" "resampler_allocs w' = resampler_allocs x"
        "converters w' = converters x @ replicate j' rc" "calls w' = calls x @ evs'"
      by blast
    from x_rep w'(3) have "converters w' = converters w1 @ replicate (j + j') rc"
      by (simp add: replicate_add)
    then have conv: "\<exists>i. converters w' = converters w1 @ replicate i rc" ..
    from x_calls w'(4) have "\<exists>evs. calls w' = calls w1 @
            [Av_frame_alloc, Avcodec_receive_frame context frame,
             Av_samples_get_buffer_size (channels c') (nb_samples fr) (sample_fmt c'),
             Avresample_alloc_context,
             Av_opt_set_int rc ''in_channel_layout'' (to_int (channel_layout c')),
             Av_opt_set_int rc ''out_channel_layout'' (to_int (channel_layout c')),
             Av_opt_set_int rc ''in_sample_rate'' (sample_rate c'),
             Av_opt_set_int rc ''out_sample_rate'' (sample_rate c'),
             Av_opt_set_int rc ''in_sample_fmt'' (sample_fmt c'),
             Av_opt_set_int rc ''out_sample_fmt'' (AV_SAMPLE_FMT_S16 (hdr L)),
             Avresample_open rc] @ evs"
      by auto
    with w3(1) rc w' x_allocs conv show ?thesis by simp
  qed
qed

lemma sim_keeps_opaque: "keeps_opaque sim_lib"
  by (auto simp: keeps_opaque_def sim_lib_def sim_receive_def split: list.splits)

lemma sim_opens_only_allocated: "opens_only_allocated sim_lib"
  by (simp add: opens_only_allocated_def sim_lib_def)

text \<open>Claim C8 says that a resampler is created on the first decoded audio frame and kept in
  the session's \<open>opaque\<close> slot. The code that does so is inside \<^verbatim>\<open>#ifdef ENABLE_AUDIO\<close>, and
  the file as written does not define \<^verbatim>\<open>ENABLE_AUDIO\<close>: no resampler is ever created. Here
  an audio session decodes its first frame; the slot is still null afterwards and the
  trace has no \<open>avresample_alloc_context\<close>.\<close>

theorem resampler_never_created_counterexample:
  "returned (decodePacket sim_lib source_build 2 7 (sim_packet 4) False (Some (replicate 4096 0)) 4096
      (session 2 (sim_idle\<lparr>per_packet := [(0, sim_audio_frame)]\<rparr>))) = Some (Inr 0)
   \<and> final_attached (decodePacket sim_lib source_build 2 7 (sim_packet 4) False
        (Some (replicate 4096 0)) 4096 (session 2 (sim_idle\<lparr>per_packet := [(0, sim_audio_frame)]\<rparr>))) 7
       = Some NULL
   \<and> final_calls (decodePacket sim_lib source_build 2 7 (sim_packet 4) False
        (Some (replicate 4096 0)) 4096 (session 2 (sim_idle\<lparr>per_packet := [(0, sim_audio_frame)]\<rparr>)))
       = [Avcodec_send_packet 7 (sim_packet 4), Av_frame_alloc, Avcodec_receive_frame 7 100,
          Av_frame_free 100, Av_frame_alloc, Avcodec_receive_frame 7 101, Av_frame_free 101]"
  by (simp add: returned_def final_attached_def final_world_def final_calls_def attached_def
      decodePacket_def queue_input_def drain_round_def audio_output_def
      source_build_def sim_audio_frame_def numeral_2_eq_2 AVERROR_def sim_defs)

text \<open>Claim C8, amended. The library is one that leaves \<open>opaque\<close> alone; in (2), (3) and
  (4) its \<open>avresample_open\<close> refuses the null pointer. A run is any sequence of decode calls
  and resets on one session, the session not being TrueHD at a reset.
  (1) A session whose slot holds a resampler, or any session in a build without
  \<^verbatim>\<open>ENABLE_AUDIO\<close> (the file as written) whatever its slot holds: after every run the slot is
  as it was, no resampler has been allocated, and every conversion of the run was made
  with the resampler of the slot; without \<^verbatim>\<open>ENABLE_AUDIO\<close> there is no conversion at all.
  (2) With \<^verbatim>\<open>ENABLE_AUDIO\<close>, a session whose slot is empty: after every run either the slot is
  still empty and no conversion has been made, or the slot holds a resampler, a resampler
  has been allocated in the run, and every conversion of the run was made with the one in
  the slot.
  (3) With \<^verbatim>\<open>ENABLE_AUDIO\<close>, one decode call on a session whose slot is empty allocates at
  most one resampler; it allocates exactly one when the slot holds a resampler afterwards,
  and then every conversion of the call was made with it.
  (4) With \<^verbatim>\<open>ENABLE_AUDIO\<close>, take a decode call whose feed stage goes on, whose first \<open>k\<close>
  rounds go on, and whose round \<open>k + 1\<close> gets an audio frame, finds the slot empty and gets
  through the resampler step. The resampler is the one just allocated; it was given the
  context's channel layout (narrowed to \<^verbatim>\<open>int\<close>) and sample rate as both input and output
  values, the context's sample format as input format and 16-bit PCM as output format,
  and it was opened; when
  the call returns it is in the slot, it is the only resampler allocated since round
  \<open>k + 1\<close> began, and every conversion made since then was made with it.
  (5) Releasing a live session frees the context, after freeing the resampler in the slot
  when \<^verbatim>\<open>ENABLE_AUDIO\<close> is defined and the slot is not null.\<close>

theorem resampler_attached_once:
  "(keeps_opaque L \<and> attached w context = Some p \<and> (p \<noteq> NULL \<or> \<not> ENABLE_AUDIO B)
      \<and> session_calls L B fuel context cs w = Some w' \<longrightarrow>
      attached w' context = Some p \<and> resampler_allocs w' = resampler_allocs w
      \<and> (\<exists>i. converters w' = converters w @ replicate i p)
      \<and> (\<not> ENABLE_AUDIO B \<longrightarrow> converters w' = converters w))
   \<and> (keeps_opaque L \<and> opens_only_allocated L \<and> ENABLE_AUDIO B
      \<and> attached w context = Some NULL
      \<and> session_calls L B fuel context cs w = Some w' \<longrightarrow>
      resampler_allocs w \<le> resampler_allocs w'
      \<and> (attached w' context = Some NULL \<and> converters w' = converters w
         \<or> (\<exists>q i. q \<noteq> NULL \<and> attached w' context = Some q
               \<and> resampler_allocs w < resampler_allocs w'
               \<and> converters w' = converters w @ replicate i q)))
   \<and> (keeps_opaque L \<and> opens_only_allocated L \<and> ENABLE_AUDIO B
      \<and> attached w context = Some NULL
      \<and> decodePacket L B fuel context packet endOfInput outputBuffer outputLimit w
          = Some (Inr (r, out', w')) \<longrightarrow>
      resampler_allocs w \<le> resampler_allocs w'
      \<and> resampler_allocs w' \<le> resampler_allocs w + 1
      \<and> (attached w' context = Some NULL \<and> converters w' = converters w
         \<or> (\<exists>q i. q \<noteq> NULL \<and> attached w' context = Some q
               \<and> resampler_allocs w' = resampler_allocs w + 1
               \<and> converters w' = converters w @ replicate i q)))
   \<and> (keeps_opaque L \<and> opens_only_allocated L \<and> ENABLE_AUDIO B
      \<and> queue_input L context packet endOfInput w = Proceed res w0
      \<and> drain_rounds L B k context outputLimit outputBuffer 0 0 w0 = Some (out, pos, outSize, w1)
      \<and> av_frame_alloc L (lib w1) = (frame, l1) \<and> frame \<noteq> NULL
      \<and> contexts w1 context = Some c
      \<and> avcodec_receive_frame L l1 c frame = ((0, fr, c'), l2)
      \<and> codec_type c' \<noteq> AVMEDIA_TYPE_VIDEO \<and> opaque c' = NULL
      \<and> w2 = libcall (Av_samples_get_buffer_size (channels c') (nb_samples fr) (sample_fmt c'))
                l2 (store_context context c'
                      (libcall (Avcodec_receive_frame context frame) l2
                         (libcall Av_frame_alloc l1 w1)))
      \<and> audio_resampler L context c' frame w2 = Proceed rc w3
      \<and> decodePacket L B (k + Suc n) context packet endOfInput outputBuffer outputLimit w
          = Some (Inr (r, out', w')) \<longrightarrow>
      rc = fst (avresample_alloc_context L l2) \<and> rc \<noteq> NULL
      \<and> attached w' context = Some rc
      \<and> resampler_allocs w' = resampler_allocs w1 + 1
      \<and> (\<exists>j. converters w' = converters w1 @ replicate j rc)
      \<and> (\<exists>evs. calls w' = calls w1 @
            [Av_frame_alloc, Avcodec_receive_frame context frame,
             Av_samples_get_buffer_size (channels c') (nb_samples fr) (sample_fmt c'),
             Avresample_alloc_context,
             Av_opt_set_int rc ''in_channel_layout'' (to_int (channel_layout c')),
             Av_opt_set_int rc ''out_channel_layout'' (to_int (channel_layout c')),
             Av_opt_set_int rc ''in_sample_rate'' (sample_rate c'),
             Av_opt_set_int rc ''out_sample_rate'' (sample_rate c'),
             Av_opt_set_int rc ''in_sample_fmt'' (sample_fmt c'),
             Av_opt_set_int rc ''out_sample_fmt'' (AV_SAMPLE_FMT_S16 (hdr L)),
             Avresample_open rc] @ evs))
   \<and> (context \<noteq> NULL \<and> contexts w context = Some c \<longrightarrow>
        (\<exists>w4. releaseContext L B context w = Inr w4 \<and> contexts w4 context = None
           \<and> calls w4 = calls w
               @ (if ENABLE_AUDIO B \<and> opaque c \<noteq> NULL then [Avresample_free (opaque c)] else [])
               @ [Avcodec_free_context context]))"
proof -
  have kept: "keeps_opaque L \<and> attached w context = Some p \<and> (p \<noteq> NULL \<or> \<not> ENABLE_AUDIO B)
      \<and> session_calls L B fuel context cs w = Some w' \<longrightarrow>
      attached w' context = Some p \<and> resampler_allocs w' = resampler_allocs w
      \<and> (\<exists>i. converters w' = converters w @ replicate i p)
      \<and> (\<not> ENABLE_AUDIO B \<longrightarrow> converters w' = converters w)"
    using session_calls_keeps [of L p B fuel "context" cs w w'] by blast
  have once: "keeps_opaque L \<and> opens_only_allocated L \<and> ENABLE_AUDIO B
      \<and> attached w context = Some NULL
      \<and> session_calls L B fuel context cs w = Some w' \<longrightarrow>
      resampler_allocs w \<le> resampler_allocs w'
      \<and> (attached w' context = Some NULL \<and> converters w' = converters w
         \<or> (\<exists>q i. q \<noteq> NULL \<and> attached w' context = Some q
               \<and> resampler_allocs w < resampler_allocs w'
               \<and> converters w' = converters w @ replicate i q))"
    using session_calls_first [of L B fuel "context" cs w w'] by blast
  have call: "keeps_opaque L \<and> opens_only_allocated L \<and> ENABLE_AUDIO B
      \<and> attached w context = Some NULL
      \<and> decodePacket L B fuel context packet endOfInput outputBuffer outputLimit w
          = Some (Inr (r, out', w')) \<longrightarrow>
      resampler_allocs w \<le> resampler_allocs w'
      \<and> resampler_allocs w' \<le> resampler_allocs w + 1
      \<and> (attached w' context = Some NULL \<and> converters w' = converters w
         \<or> (\<exists>q i. q \<noteq> NULL \<and> attached w' context = Some q
               \<and> resampler_allocs w' = resampler_allocs w + 1
               \<and> converters w' = converters w @ replicate i q))"
    using decodePacket_first [of L B fuel "context" packet endOfInput outputBuffer outputLimit
        w r out' w']
    by blast
  have create: "keeps_opaque L \<and> opens_only_allocated L \<and> ENABLE_AUDIO B
      \<and> queue_input L context packet endOfInput w = Proceed res w0
      \<and> drain_rounds L B k context outputLimit outputBuffer 0 0 w0 = Some (out, pos, outSize, w1)
      \<and> av_frame_alloc L (lib w1) = (frame, l1) \<and> frame \<noteq> NULL
      \<and> contexts w1 context = Some c
      \<and> avcodec_receive_frame L l1 c frame = ((0, fr, c'), l2)
      \<and> codec_type c' \<noteq> AVMEDIA_TYPE_VIDEO \<and> opaque c' = NULL
      \<and> w2 = libcall (Av_samples_get_buffer_size (channels c') (nb_samples fr) (sample_fmt c'))
                l2 (store_context context c'
                      (libcall (Avcodec_receive_frame context frame) l2
                         (libcall Av_frame_alloc l1 w1)))
      \<and> audio_resampler L context c' frame w2 = Proceed rc w3
      \<and> decodePacket L B (k + Suc n) context packet endOfInput outputBuffer outputLimit w
          = Some (Inr (r, out', w')) \<longrightarrow>
      rc = fst (avresample_alloc_context L l2) \<and> rc \<noteq> NULL
      \<and> attached w' context = Some rc
      \<and> resampler_allocs w' = resampler_allocs w1 + 1
      \<and> (\<exists>j. converters w' = converters w1 @ replicate j rc)
      \<and> (\<exists>evs. calls w' = calls w1 @
            [Av_frame_alloc, Avcodec_receive_frame context frame,
             Av_samples_get_buffer_size (channels c') (nb_samples fr) (sample_fmt c'),
             Avresample_alloc_context,
             Av_opt_set_int rc ''in_channel_layout'' (to_int (channel_layout c')),
             Av_opt_set_int rc ''out_channel_layout'' (to_int (channel_layout c')),
             Av_opt_set_int rc ''in_sample_rate'' (sample_rate c'),
             Av_opt_set_int rc ''out_sample_rate'' (sample_rate c'),
             Av_opt_set_int rc ''in_sample_fmt'' (sample_fmt c'),
             Av_opt_set_int rc ''out_sample_fmt'' (AV_SAMPLE_FMT_S16 (hdr L)),
             Avresample_open rc] @ evs)"
    using decodePacket_creates [of L B "context" packet endOfInput w res w0 k outputLimit
        outputBuffer out pos outSize w1 frame l1 c fr c' l2 w2 rc w3 n r out' w']
    by blast
  have release: "context \<noteq> NULL \<and> contexts w context = Some c \<longrightarrow>
        (\<exists>w4. releaseContext L B context w = Inr w4 \<and> contexts w4 context = None
           \<and> calls w4 = calls w
               @ (if ENABLE_AUDIO B \<and> opaque c \<noteq> NULL then [Avresample_free (opaque c)] else [])
               @ [Avcodec_free_context context])"
    using releaseContext_live [of "context" w c L B] by auto
  from kept once call create release show ?thesis by blast
qed

text \<open>On the small library, with an audio session at address 7 that is not TrueHD and a
  decoder that gives one frame per packet. A run of a decode call, a reset and a decode
  call: in the audio build with the resampler 55 in the slot, both frames are converted
  with 55 and nothing is allocated; in the build of the file as written the slot stays
  null and nothing is converted; in the audio build with an empty slot, one resampler is
  allocated, at address 101, and both frames are converted with it. One decode call in the
  audio build that gets two frames with the slot empty: one resampler, 101, both frames
  converted with it, and the trace of the call up to the opening of the resampler. A
  release in the audio build that frees resampler and context.\<close>

theorem resampler_attached_once_witness:
  "map_option (\<lambda>x. (attached x 7, resampler_allocs x, converters x))
      (session_calls sim_lib audio_build 2 7
         [Decode (Some (DirectByteBuffer [0, 0, 0, 0])) 4 0 False
            (Some (DirectByteBuffer (replicate 4096 0))) 4096,
          Reset None,
          Decode (Some (DirectByteBuffer [0, 0, 0, 0])) 4 0 False
            (Some (DirectByteBuffer (replicate 4096 0))) 4096]
         (store_context 7 (sim_context 2\<lparr>codec_id := 86018, opaque := 55\<rparr>)
            (start (sim_idle\<lparr>per_packet := [(0, sim_audio_frame)]\<rparr>))))
     = Some (Some 55, 0, [55, 55])
   \<and> map_option (\<lambda>x. (attached x 7, resampler_allocs x, converters x))
      (session_calls sim_lib source_build 2 7
         [Decode (Some (DirectByteBuffer [0, 0, 0, 0])) 4 0 False
            (Some (DirectByteBuffer (replicate 4096 0))) 4096,
          Reset None,
          Decode (Some (DirectByteBuffer [0, 0, 0, 0])) 4 0 False
            (Some (DirectByteBuffer (replicate 4096 0))) 4096]
         (store_context 7 (sim_context 2\<lparr>codec_id := 86018\<rparr>)
            (start (sim_idle\<lparr>per_packet := [(0, sim_audio_frame)]\<rparr>))))
     = Some (Some NULL, 0, [])
   \<and> map_option (\<lambda>x. (attached x 7, resampler_allocs x, converters x))
      (session_calls sim_lib audio_build 2 7
         [Decode (Some (DirectByteBuffer [0, 0, 0, 0])) 4 0 False
            (Some (DirectByteBuffer (replicate 4096 0))) 4096,
          Reset None,
          Decode (Some (DirectByteBuffer [0, 0, 0, 0])) 4 0 False
            (Some (DirectByteBuffer (replicate 4096 0))) 4096]
         (store_context 7 (sim_context 2\<lparr>codec_id := 86018\<rparr>)
            (start (sim_idle\<lparr>per_packet := [(0, sim_audio_frame)]\<rparr>))))
     = Some (Some 101, 1, [101, 101])
   \<and> map_option (\<lambda>x. (attached x 7, resampler_allocs x, converters x))
      (final_world (decodePacket sim_lib audio_build 3 7 (sim_packet 4) False
         (Some (replicate 8192 0)) 8192
         (session 2 (sim_idle\<lparr>per_packet := [(0, sim_audio_frame), (0, sim_audio_frame)]\<rparr>))))
     = Some (Some 101, 1, [101, 101])
   \<and> take 12 (final_calls (decodePacket sim_lib audio_build 3 7 (sim_packet 4) False
         (Some (replicate 8192 0)) 8192
         (session 2 (sim_idle\<lparr>per_packet := [(0, sim_audio_frame), (0, sim_audio_frame)]\<rparr>))))
     = [Avcodec_send_packet 7 (sim_packet 4), Av_frame_alloc, Avcodec_receive_frame 7 100,
        Av_samples_get_buffer_size 2 1024 8, Avresample_alloc_context,
        Av_opt_set_int 101 ''in_channel_layout'' 3, Av_opt_set_int 101 ''out_channel_layout'' 3,
        Av_opt_set_int 101 ''in_sample_rate'' 48000, Av_opt_set_int 101 ''out_sample_rate'' 48000,
        Av_opt_set_int 101 ''in_sample_fmt'' 8, Av_opt_set_int 101 ''out_sample_fmt'' 1,
        Avresample_open 101]
   \<and> (\<exists>w4. releaseContext sim_lib audio_build 7 (resampling sim_idle) = Inr w4
          \<and> contexts w4 7 = None \<and> calls w4 = [Avresample_free 55, Avcodec_free_context 7])"
proof -
  note run_defs = nativeDecode_def buffer_address_def nativeReset_def decodePacket_def
    queue_input_def drain_round_def audio_output_def audio_resampler_def set_resample_options_def
    audio_convert_def write_bytes_def in_int_def INT_MIN_def INT_MAX_def audio_build_def
    source_build_def sim_audio_frame_def numeral_2_eq_2 numeral_3_eq_3 AVERROR_def Let_def sim_defs
  let ?l = "sim_idle\<lparr>per_packet := [(0, sim_audio_frame)]\<rparr>"
  let ?cs = "[Decode (Some (DirectByteBuffer [0, 0, 0, 0])) 4 0 False
                (Some (DirectByteBuffer (replicate 4096 0))) 4096,
              Reset None,
              Decode (Some (DirectByteBuffer [0, 0, 0, 0])) 4 0 False
                (Some (DirectByteBuffer (replicate 4096 0))) 4096]"
  let ?wk = "store_context 7 (sim_context 2\<lparr>codec_id := 86018, opaque := 55\<rparr>) (start ?l)"
  let ?we = "store_context 7 (sim_context 2\<lparr>codec_id := 86018\<rparr>) (start ?l)"
  note kept_rule = resampler_attached_once [THEN conjunct1, THEN mp]
  note once_rule = resampler_attached_once [THEN conjunct2, THEN conjunct1, THEN mp]
  note call_rule = resampler_attached_once [THEN conjunct2, THEN conjunct2, THEN conjunct1, THEN mp]
  note create_rule = resampler_attached_once
    [THEN conjunct2, THEN conjunct2, THEN conjunct2, THEN conjunct1, THEN mp]
  note release_rule = resampler_attached_once
    [THEN conjunct2, THEN conjunct2, THEN conjunct2, THEN conjunct2, THEN mp]
  have "\<exists>w'. session_calls sim_lib audio_build 2 7 ?cs ?wk = Some w' \<and> converters w' = [55, 55]"
    by (simp add: run_defs converters_def)
  then obtain wk' where kept_run: "session_calls sim_lib audio_build 2 7 ?cs ?wk = Some wk'"
    and kept_conv: "converters wk' = [55, 55]"
    by blast
  have kept_slot: "attached ?wk 7 = Some 55" "(55::nat) \<noteq> NULL \<or> \<not> ENABLE_AUDIO audio_build"
    and kept_allocs: "resampler_allocs ?wk = 0"
    by (simp_all add: start_def resampler_allocs_def)
  from kept_rule [of sim_lib ?wk 7 55 audio_build 2 ?cs wk']
    sim_keeps_opaque kept_slot kept_run
  have "attached wk' 7 = Some 55 \<and> resampler_allocs wk' = resampler_allocs ?wk"
    by blast
  with kept_run kept_conv kept_allocs
  have kept: "map_option (\<lambda>x. (attached x 7, resampler_allocs x, converters x))
      (session_calls sim_lib audio_build 2 7 ?cs ?wk) = Some (Some 55, 0, [55, 55])"
    by simp
  have "\<exists>w'. session_calls sim_lib source_build 2 7 ?cs ?we = Some w'"
    by (simp add: run_defs)
  then obtain ws' where none_run: "session_calls sim_lib source_build 2 7 ?cs ?we = Some ws'"
    by blast
  have none_slot: "attached ?we 7 = Some NULL" "NULL \<noteq> NULL \<or> \<not> ENABLE_AUDIO source_build"
    and none_start: "resampler_allocs ?we = 0" "converters ?we = []"
    by (simp_all add: start_def resampler_allocs_def converters_def attached_def sim_context_def
        source_build_def)
  from kept_rule [of sim_lib ?we 7 NULL source_build 2 ?cs ws']
    sim_keeps_opaque none_slot none_run
  have "attached ws' 7 = Some NULL \<and> resampler_allocs ws' = resampler_allocs ?we
      \<and> converters ws' = converters ?we"
    by blast
  with none_run none_start
  have none: "map_option (\<lambda>x. (attached x 7, resampler_allocs x, converters x))
      (session_calls sim_lib source_build 2 7 ?cs ?we) = Some (Some NULL, 0, [])"
    by simp
  have "\<exists>w'. session_calls sim_lib audio_build 2 7 ?cs ?we = Some w'
      \<and> attached w' 7 = Some 101 \<and> converters w' = [101, 101] \<and> resampler_allocs w' = 1"
    by (simp add: run_defs converters_def attached_def resampler_allocs_def)
  then obtain wo' where once_run: "session_calls sim_lib audio_build 2 7 ?cs ?we = Some wo'"
    and once_end: "attached wo' 7 = Some 101" "converters wo' = [101, 101]"
      "resampler_allocs wo' = 1"
    by blast
  have audio_on: "ENABLE_AUDIO audio_build"
    by (simp add: audio_build_def)
  from once_rule [of sim_lib audio_build ?we 7 2 ?cs wo']
    sim_keeps_opaque sim_opens_only_allocated audio_on none_slot(1) once_run
  have "attached wo' 7 = Some NULL \<and> converters wo' = converters ?we
      \<or> (\<exists>q i. q \<noteq> NULL \<and> attached wo' 7 = Some q
            \<and> resampler_allocs ?we < resampler_allocs wo'
            \<and> converters wo' = converters ?we @ replicate i q)"
    by blast
  with once_run once_end
  have once: "map_option (\<lambda>x. (attached x 7, resampler_allocs x, converters x))
      (session_calls sim_lib audio_build 2 7 ?cs ?we) = Some (Some 101, 1, [101, 101])"
    by simp
  let ?l2 = "sim_idle\<lparr>per_packet := [(0, sim_audio_frame), (0, sim_audio_frame)]\<rparr>"
  let ?lq = "?l2\<lparr>frames := [(0, sim_audio_frame), (0, sim_audio_frame)]\<rparr>"
  let ?w0 = "store_context 7 (sim_context 2)
               (libcall (Avcodec_send_packet 7 (sim_packet 4)) ?lq (session 2 ?l2))"
  let ?w2 = "libcall (Av_samples_get_buffer_size (channels (sim_context 2))
                        (nb_samples sim_audio_frame) (sample_fmt (sim_context 2)))
               (?lq\<lparr>frames := [(0, sim_audio_frame)], next_ptr := 101\<rparr>)
               (store_context 7 (sim_context 2)
                  (libcall (Avcodec_receive_frame 7 100)
                     (?lq\<lparr>frames := [(0, sim_audio_frame)], next_ptr := 101\<rparr>)
                     (libcall Av_frame_alloc (?lq\<lparr>next_ptr := 101\<rparr>) ?w0)))"
  have "\<exists>r out' w'. decodePacket sim_lib audio_build 3 7 (sim_packet 4) False
          (Some (replicate 8192 0)) 8192 (session 2 ?l2) = Some (Inr (r, out', w'))
        \<and> converters w' = [101, 101]"
    by (simp add: run_defs converters_def)
  then obtain r out' w' where run: "decodePacket sim_lib audio_build 3 7 (sim_packet 4) False
          (Some (replicate 8192 0)) 8192 (session 2 ?l2) = Some (Inr (r, out', w'))"
    and run_conv: "converters w' = [101, 101]"
    by blast
  have first_slot: "attached (session 2 ?l2) 7 = Some NULL"
    and first_start: "resampler_allocs (session 2 ?l2) = 0" "converters (session 2 ?l2) = []"
    by (simp_all add: session_def start_def attached_def resampler_allocs_def converters_def
        sim_context_def)
  from call_rule [of sim_lib audio_build "session 2 ?l2" 7 3 "sim_packet 4"
      False "Some (replicate 8192 0)" 8192 r out' w']
    sim_keeps_opaque sim_opens_only_allocated audio_on first_slot run
  have call: "resampler_allocs w' \<le> resampler_allocs (session 2 ?l2) + 1"
    by blast
  have fed: "queue_input sim_lib 7 (sim_packet 4) False (session 2 ?l2) = Proceed 0 ?w0"
    by (simp add: queue_input_def sim_defs)
  have earlier: "drain_rounds sim_lib audio_build 0 7 8192 (Some (replicate 8192 0)) 0 0 ?w0
      = Some (Some (replicate 8192 0), 0, 0, ?w0)"
    by simp
  have alloc: "av_frame_alloc sim_lib (lib ?w0) = (100, ?lq\<lparr>next_ptr := 101\<rparr>)"
    "(100::nat) \<noteq> NULL"
    by (simp_all add: sim_defs)
  have live: "contexts ?w0 7 = Some (sim_context 2)"
    by simp
  have got: "avcodec_receive_frame sim_lib (?lq\<lparr>next_ptr := 101\<rparr>) (sim_context 2) 100
      = ((0, sim_audio_frame, sim_context 2),
         ?lq\<lparr>frames := [(0, sim_audio_frame)], next_ptr := 101\<rparr>)"
    by (simp add: sim_defs)
  have audio: "codec_type (sim_context 2) \<noteq> AVMEDIA_TYPE_VIDEO" "opaque (sim_context 2) = NULL"
    by (simp_all add: sim_context_def)
  have "\<exists>w3. audio_resampler sim_lib 7 (sim_context 2) 100 ?w2 = Proceed 101 w3"
    by (simp add: audio_resampler_def set_resample_options_def Let_def sim_defs)
  then obtain w3 where made: "audio_resampler sim_lib 7 (sim_context 2) 100 ?w2 = Proceed 101 w3"
    ..
  have run': "decodePacket sim_lib audio_build (0 + Suc 2) 7 (sim_packet 4) False
          (Some (replicate 8192 0)) 8192 (session 2 ?l2) = Some (Inr (r, out', w'))"
    using run by (simp add: numeral_3_eq_3)
  from create_rule [of sim_lib audio_build 7 "sim_packet 4" False "session 2 ?l2" 0 ?w0 0 8192
      "Some (replicate 8192 0)" "Some (replicate 8192 0)" 0 0 ?w0 100 "?lq\<lparr>next_ptr := 101\<rparr>"
      "sim_context 2" sim_audio_frame "sim_context 2"
      "?lq\<lparr>frames := [(0, sim_audio_frame)], next_ptr := 101\<rparr>" ?w2 101 w3 2 r out' w']
    sim_keeps_opaque sim_opens_only_allocated audio_on fed earlier alloc live got audio made run'
  have create: "attached w' 7 = Some 101 \<and> resampler_allocs w' = resampler_allocs ?w0 + 1
      \<and> (\<exists>evs. calls w' = calls ?w0 @
            [Av_frame_alloc, Avcodec_receive_frame 7 100,
             Av_samples_get_buffer_size (channels (sim_context 2)) (nb_samples sim_audio_frame)
               (sample_fmt (sim_context 2)),
             Avresample_alloc_context,
             Av_opt_set_int 101 ''in_channel_layout'' (to_int (channel_layout (sim_context 2))),
             Av_opt_set_int 101 ''out_channel_layout'' (to_int (channel_layout (sim_context 2))),
             Av_opt_set_int 101 ''in_sample_rate'' (sample_rate (sim_context 2)),
             Av_opt_set_int 101 ''out_sample_rate'' (sample_rate (sim_context 2)),
             Av_opt_set_int 101 ''in_sample_fmt'' (sample_fmt (sim_context 2)),
             Av_opt_set_int 101 ''out_sample_fmt'' (AV_SAMPLE_FMT_S16 (hdr sim_lib)),
             Avresample_open 101] @ evs)"
    by blast
  have sent: "resampler_allocs ?w0 = 0" "calls ?w0 = [Avcodec_send_packet 7 (sim_packet 4)]"
    by (simp_all add: session_def start_def resampler_allocs_def)
  from create call run run_conv sent
  have first: "map_option (\<lambda>x. (attached x 7, resampler_allocs x, converters x))
      (final_world (decodePacket sim_lib audio_build 3 7 (sim_packet 4) False
         (Some (replicate 8192 0)) 8192 (session 2 ?l2)))
     = Some (Some 101, 1, [101, 101])"
    by (simp add: final_world_def)
  from create run sent
  have configured: "take 12 (final_calls (decodePacket sim_lib audio_build 3 7 (sim_packet 4) False
         (Some (replicate 8192 0)) 8192 (session 2 ?l2)))
     = [Avcodec_send_packet 7 (sim_packet 4), Av_frame_alloc, Avcodec_receive_frame 7 100,
        Av_samples_get_buffer_size 2 1024 8, Avresample_alloc_context,
        Av_opt_set_int 101 ''in_channel_layout'' 3, Av_opt_set_int 101 ''out_channel_layout'' 3,
        Av_opt_set_int 101 ''in_sample_rate'' 48000, Av_opt_set_int 101 ''out_sample_rate'' 48000,
        Av_opt_set_int 101 ''in_sample_fmt'' 8, Av_opt_set_int 101 ''out_sample_fmt'' 1,
        Avresample_open 101]"
    by (auto simp: final_calls_def to_int_def sim_context_def sim_audio_frame_def sim_lib_def
        sim_consts_def)
  have held: "(7::nat) \<noteq> NULL
      \<and> contexts (resampling sim_idle) 7 = Some (sim_context 2\<lparr>opaque := 55\<rparr>)"
    by (simp add: resampling_def)
  from release_rule [of 7 "resampling sim_idle" "sim_context 2\<lparr>opaque := 55\<rparr>" sim_lib
      audio_build] held
  have release: "\<exists>w4. releaseContext sim_lib audio_build 7 (resampling sim_idle) = Inr w4
          \<and> contexts w4 7 = None \<and> calls w4 = [Avresample_free 55, Avcodec_free_context 7]"
    by (simp add: audio_build_def resampling_def start_def)
  from kept none once first configured release show ?thesis
    by blast
qed

end
